theory Spec2Isabelle
  imports Complex_Main "HOL-Library.Char_ord" "HOL-Library.List_Lexorder"
begin

section \<open>JavaScript numbers\<close>

text \<open>
  The walk tracker has two components: the walk context (a React provider holding the
  state of the walk in progress) and the database service (a class wrapping an SQLite
  handle). The distance of a walk is computed in JavaScript numbers, which are IEEE-754
  binary64 values: a finite value, \<^verbatim>\<open>NaN\<close>, \<^verbatim>\<open>Infinity\<close> or \<^verbatim>\<open>-Infinity\<close>. A
  finite value is given by the real number it stands for. The two zeros are one value
  here: of the operations below only a division by zero and \<^verbatim>\<open>Math.atan2\<close> tell them
  apart, the distance computation divides by the literals 180 and 2 only, and it passes
  \<^verbatim>\<open>Math.atan2\<close> square roots, which are never \<open>-0\<close> there.
\<close>

datatype number = Num real | NaN | PosInfinity | NegInfinity

text \<open>
  Every arithmetic operation yields the exact result rounded to a representable value.
  The operations take the rounding as a parameter, so that the same computation can be
  read in double precision (\<open>round64\<close>) and in exact arithmetic (\<open>exactly\<close>).
\<close>

type_synonym rounding = "real \<Rightarrow> number"


text \<open>\<open>pow2 k\<close> is 2 to the power \<open>k\<close>, for any integer \<open>k\<close>.\<close>

definition pow2 :: "int \<Rightarrow> real" where
  "pow2 k = 2 powr (of_int k)"

text \<open>The nearest integer, a tie going to the even one.\<close>

definition roundEven :: "real \<Rightarrow> int" where
  "roundEven x =
     (let n = \<lfloor>x\<rfloor>; f = x - of_int n
      in if f < 1 / 2 then n else if 1 / 2 < f then n + 1 else if even n then n else n + 1)"

text \<open>
  Rounding to binary64, to nearest with ties to even: a value with binary exponent \<open>e\<close>
  (at least \<open>-1022\<close>, where the subnormal range begins) is rounded to a multiple of
  \<open>2\<^sup>e\<^sup>-\<^sup>5\<^sup>2\<close>, and a result of magnitude \<open>2\<^sup>1\<^sup>0\<^sup>2\<^sup>4\<close> or more overflows
  to an infinity.
\<close>

definition round64 :: rounding where
  "round64 x =
     (if x = 0 then Num 0
      else let e = max \<lfloor>log 2 \<bar>x\<bar>\<rfloor> (- 1022);
               u = pow2 (e - 52);
               y = of_int (roundEven (x / u)) * u
           in if pow2 1024 \<le> \<bar>y\<bar> then (if 0 < y then PosInfinity else NegInfinity) else Num y)"

text \<open>Unary minus, and the four operations with their special cases.\<close>

fun neg :: "number \<Rightarrow> number" where
  "neg (Num x) = Num (- x)"
| "neg NaN = NaN"
| "neg PosInfinity = NegInfinity"
| "neg NegInfinity = PosInfinity"

fun fadd :: "rounding \<Rightarrow> number \<Rightarrow> number \<Rightarrow> number" where
  "fadd rnd NaN y = NaN"
| "fadd rnd x NaN = NaN"
| "fadd rnd (Num x) (Num y) = rnd (x + y)"
| "fadd rnd PosInfinity NegInfinity = NaN"
| "fadd rnd NegInfinity PosInfinity = NaN"
| "fadd rnd PosInfinity y = PosInfinity"
| "fadd rnd x PosInfinity = PosInfinity"
| "fadd rnd NegInfinity y = NegInfinity"
| "fadd rnd x NegInfinity = NegInfinity"

definition fsub :: "rounding \<Rightarrow> number \<Rightarrow> number \<Rightarrow> number" where
  "fsub rnd x y = fadd rnd x (neg y)"

fun fmul :: "rounding \<Rightarrow> number \<Rightarrow> number \<Rightarrow> number" where
  "fmul rnd NaN y = NaN"
| "fmul rnd x NaN = NaN"
| "fmul rnd (Num x) (Num y) = rnd (x * y)"
| "fmul rnd (Num x) y = (if x = 0 then NaN else if 0 < x then y else neg y)"
| "fmul rnd x (Num y) = (if y = 0 then NaN else if 0 < y then x else neg x)"
| "fmul rnd x y = (if x = y then PosInfinity else NegInfinity)"

fun fdiv :: "rounding \<Rightarrow> number \<Rightarrow> number \<Rightarrow> number" where
  "fdiv rnd NaN y = NaN"
| "fdiv rnd x NaN = NaN"
| "fdiv rnd (Num x) (Num y) =
     (if y = 0 then (if x = 0 then NaN else if 0 < x then PosInfinity else NegInfinity)
      else rnd (x / y))"
| "fdiv rnd (Num x) y = Num 0"
| "fdiv rnd x (Num y) = (if 0 \<le> y then x else neg x)"
| "fdiv rnd x y = NaN"




subsection \<open>The Math object\<close>

text \<open>
  ECMAScript fixes what \<^verbatim>\<open>Math.sin\<close>, \<^verbatim>\<open>Math.cos\<close> and \<^verbatim>\<open>Math.atan2\<close> return
  at zeros, infinities and \<^verbatim>\<open>NaN\<close>, and leaves their values elsewhere to the
  implementation. A \<open>MathLibrary\<close> holds the implementation's part: the value of
  \<^verbatim>\<open>Math.PI\<close> and the values that the three functions return at finite arguments,
  which are finite. \<^verbatim>\<open>Math.sqrt\<close> is taken as the correctly rounded square root, the
  IEEE-754 operation that the engines use for it.
\<close>

record MathLibrary =
  Math_PI :: real
  sin_impl :: "real \<Rightarrow> real"
  cos_impl :: "real \<Rightarrow> real"
  atan2_impl :: "real \<Rightarrow> real \<Rightarrow> real"

fun Math_sin :: "MathLibrary \<Rightarrow> number \<Rightarrow> number" where
  "Math_sin m (Num x) = (if x = 0 then Num 0 else Num (sin_impl m x))"
| "Math_sin m x = NaN"

fun Math_cos :: "MathLibrary \<Rightarrow> number \<Rightarrow> number" where
  "Math_cos m (Num x) = (if x = 0 then Num 1 else Num (cos_impl m x))"
| "Math_cos m x = NaN"

fun Math_sqrt :: "rounding \<Rightarrow> number \<Rightarrow> number" where
  "Math_sqrt rnd (Num x) = (if x < 0 then NaN else rnd (sqrt x))"
| "Math_sqrt rnd PosInfinity = PosInfinity"
| "Math_sqrt rnd x = NaN"

fun Math_atan2 :: "MathLibrary \<Rightarrow> number \<Rightarrow> number \<Rightarrow> number" where
  "Math_atan2 m NaN x = NaN"
| "Math_atan2 m y NaN = NaN"
| "Math_atan2 m (Num y) (Num x) =
     (if y = 0 then (if x < 0 then Num (Math_PI m) else Num 0)
      else if x = 0 then (if 0 < y then Num (Math_PI m / 2) else Num (- (Math_PI m / 2)))
      else Num (atan2_impl m y x))"
| "Math_atan2 m (Num y) PosInfinity = Num 0"
| "Math_atan2 m (Num y) NegInfinity = (if 0 \<le> y then Num (Math_PI m) else Num (- Math_PI m))"
| "Math_atan2 m PosInfinity (Num x) = Num (Math_PI m / 2)"
| "Math_atan2 m PosInfinity PosInfinity = Num (Math_PI m / 4)"
| "Math_atan2 m PosInfinity NegInfinity = Num (3 * Math_PI m / 4)"
| "Math_atan2 m NegInfinity (Num x) = Num (- (Math_PI m / 2))"
| "Math_atan2 m NegInfinity PosInfinity = Num (- (Math_PI m / 4))"
| "Math_atan2 m NegInfinity NegInfinity = Num (- (3 * Math_PI m / 4))"

section \<open>Data model\<close>

text \<open>
  The numbers that the location provider delivers (coordinates, accuracies) are finite
  and are given as reals; a distance is the result of arithmetic and is a \<open>number\<close>.
  Integral quantities (row ids, durations in seconds, times in milliseconds since the
  epoch) are integers. An optional field (\<^verbatim>\<open>endLatitude?: number\<close>) and a nullable
  column are both \<open>option\<close>: \<open>None\<close> stands for \<^verbatim>\<open>undefined\<close> in an argument and for
  \<^verbatim>\<open>NULL\<close> in a stored row.
\<close>

record LocationCoords =
  latitude :: real
  longitude :: real

record Walk =
  walk_id :: "int option"
  startTime :: string
  endTime :: string
  duration :: int
  startLatitude :: real
  startLongitude :: real
  endLatitude :: "real option"
  endLongitude :: "real option"
  distance :: "number option"
  createdAt :: string

record RoutePoint =
  point_id :: "int option"
  walkId :: int
  point_latitude :: real
  point_longitude :: real
  timestamp :: string
  accuracy :: "real option"

datatype error = SqlError | RangeError

section \<open>Distance computation\<close>

text \<open>
  \<^verbatim>\<open>calculateDistance(start, end)\<close>, line by line, in the arithmetic \<open>rnd\<close> and with
  the library \<open>m\<close>. The products of four factors associate to the left, as in the source.
\<close>

definition calculateDistance ::
  "rounding \<Rightarrow> MathLibrary \<Rightarrow> LocationCoords \<Rightarrow> LocationCoords \<Rightarrow> number" where
  "calculateDistance rnd m start endp =
     (let R = Num 6371000;
          phi1 = fdiv rnd (fmul rnd (Num (latitude start)) (Num (Math_PI m))) (Num 180);
          phi2 = fdiv rnd (fmul rnd (Num (latitude endp)) (Num (Math_PI m))) (Num 180);
          dphi = fdiv rnd (fmul rnd (fsub rnd (Num (latitude endp)) (Num (latitude start)))
                                    (Num (Math_PI m))) (Num 180);
          dlam = fdiv rnd (fmul rnd (fsub rnd (Num (longitude endp)) (Num (longitude start)))
                                    (Num (Math_PI m))) (Num 180);
          a = fadd rnd
                (fmul rnd (Math_sin m (fdiv rnd dphi (Num 2))) (Math_sin m (fdiv rnd dphi (Num 2))))
                (fmul rnd
                   (fmul rnd (fmul rnd (Math_cos m phi1) (Math_cos m phi2))
                             (Math_sin m (fdiv rnd dlam (Num 2))))
                   (Math_sin m (fdiv rnd dlam (Num 2))));
          c = fmul rnd (Num 2) (Math_atan2 m (Math_sqrt rnd a) (Math_sqrt rnd (fsub rnd (Num 1) a)))
      in fmul rnd R c)"

text \<open>
  The loop of \<^verbatim>\<open>calculateRouteDistance\<close>:
  \<^verbatim>\<open>for (let i = 1; i < points.length; i++) totalDistance += calculateDistance(points[i - 1], points[i])\<close>.
  Both indices are in range whenever the body runs with \<open>1 \<le> i\<close>.
\<close>

function routeDistanceLoop ::
  "rounding \<Rightarrow> MathLibrary \<Rightarrow> LocationCoords list \<Rightarrow> nat \<Rightarrow> number \<Rightarrow> number" where
  "routeDistanceLoop rnd m points i totalDistance =
     (if i < length points
      then routeDistanceLoop rnd m points (i + 1)
             (fadd rnd totalDistance (calculateDistance rnd m (points ! (i - 1)) (points ! i)))
      else totalDistance)"
  by pat_completeness auto
termination
  by (relation "measure (\<lambda>(rnd, m, points, i, totalDistance). length points - i)") auto

declare routeDistanceLoop.simps [simp del]

definition calculateRouteDistance ::
  "rounding \<Rightarrow> MathLibrary \<Rightarrow> LocationCoords list \<Rightarrow> number" where
  "calculateRouteDistance rnd m points =
     (if length points < 2 then Num 0 else routeDistanceLoop rnd m points 1 (Num 0))"

subsection \<open>The distance algorithm as the specification words it\<close>

text \<open>
  The Haversine formula on real angles in radians, with Earth radius 6,371,000 metres:
  \<open>a = sin\<^sup>2(\<Delta>\<phi>/2) + cos \<phi>1 \<sqdot> cos \<phi>2 \<sqdot> sin\<^sup>2(\<Delta>\<lambda>/2)\<close>,
  \<open>c = 2 \<sqdot> atan2(\<surd>a, \<surd>(1 - a))\<close>, segment distance \<open>R \<sqdot> c\<close>;
  the route length is the sum over all consecutive pairs. Here \<open>atan2 y x\<close> is the angle
  of the point \<open>(x, y)\<close>.
\<close>

definition atan2 :: "real \<Rightarrow> real \<Rightarrow> real" where
  "atan2 y x =
     (if 0 < x then arctan (y / x)
      else if x < 0 then (if 0 \<le> y then arctan (y / x) + pi else arctan (y / x) - pi)
      else if 0 < y then pi / 2
      else if y < 0 then - (pi / 2)
      else 0)"






definition doublePI :: real where
  "doublePI = 884279719003555 / 281474976710656"

fun finiteValue :: "number \<Rightarrow> real" where
  "finiteValue (Num x) = x"
| "finiteValue x = 0"

definition libm :: MathLibrary where
  "libm =
     \<lparr>Math_PI = doublePI,
      sin_impl = (\<lambda>x. finiteValue (round64 (sin x))),
      cos_impl = (\<lambda>x. finiteValue (round64 (cos x))),
      atan2_impl = (\<lambda>y x. finiteValue (round64 (atan2 y x)))\<rparr>"

section \<open>The SQLite engine\<close>

text \<open>
  The database service talks to SQLite through \<^verbatim>\<open>execAsync\<close>, \<^verbatim>\<open>runAsync\<close>,
  \<^verbatim>\<open>getAllAsync\<close> and \<^verbatim>\<open>getFirstAsync\<close>. The engine is not part of the
  repository; the model below gives the statements that the service issues their SQL
  meaning on two tables, and lets the environment decide which statements fail and how.
\<close>

datatype statement =
    BEGIN_TRANSACTION
  | COMMIT
  | ROLLBACK
  | CREATE_TABLES
  | INSERT_WALK Walk
  | INSERT_ROUTE_POINT RoutePoint
  | SELECT_ROUTE_POINTS int
  | SELECT_WALKS
  | SELECT_WALK_BY_ID int
  | SELECT_RECENT_WALKS int
  | SELECT_STATS
  | DELETE_ROUTE_POINTS int
  | DELETE_WALK int

text \<open>
  What becomes of a statement: it is carried out; or it raises an error and has no effect
  (a violated constraint, a missing table); or it raises an error on which SQLite rolls
  the open transaction back by itself (disk full, I/O error, out of memory). An \<open>engine\<close>
  says which, for each statement.
\<close>

datatype outcome = Done | Raises | RaisesRolledBack

type_synonym engine = "statement \<Rightarrow> outcome"

text \<open>
  The tables in insertion order, the \<^verbatim>\<open>AUTOINCREMENT\<close> counters (the largest id ever
  given out in each table), and the snapshot to which an open transaction rolls back.
\<close>

record SQLiteDatabase =
  walks :: "Walk list"
  route_points :: "RoutePoint list"
  walks_seq :: int
  route_points_seq :: int
  transaction :: "(Walk list \<times> RoutePoint list \<times> int \<times> int) option"

text \<open>
  Rolling back restores the snapshot and ends the transaction; outside a transaction
  there is nothing to restore.
\<close>

definition rolledBack :: "SQLiteDatabase \<Rightarrow> SQLiteDatabase" where
  "rolledBack d =
     (case transaction d of
        None \<Rightarrow> d
      | Some (ws, ps, wseq, pseq) \<Rightarrow>
          d\<lparr>walks := ws, route_points := ps, walks_seq := wseq, route_points_seq := pseq,
            transaction := None\<rparr>)"

text \<open>
  Executing a statement: the engine's verdict first, then, if the statement is carried
  out, its meaning \<open>run\<close>, which can raise an error of its own.
\<close>

definition execute ::
  "engine \<Rightarrow> statement \<Rightarrow> (SQLiteDatabase \<Rightarrow> (error + 'a) \<times> SQLiteDatabase) \<Rightarrow> SQLiteDatabase
     \<Rightarrow> (error + 'a) \<times> SQLiteDatabase" where
  "execute fails stmt run d =
     (case fails stmt of
        Done \<Rightarrow> run d
      | Raises \<Rightarrow> (Inl SqlError, d)
      | RaisesRolledBack \<Rightarrow> (Inl SqlError, rolledBack d))"

text \<open>
  \<^verbatim>\<open>BEGIN TRANSACTION\<close> fails inside a transaction; \<^verbatim>\<open>COMMIT\<close> and
  \<^verbatim>\<open>ROLLBACK\<close> fail when no transaction is active.
\<close>

definition execBegin :: "engine \<Rightarrow> SQLiteDatabase \<Rightarrow> (error + unit) \<times> SQLiteDatabase" where
  "execBegin fails =
     execute fails BEGIN_TRANSACTION
       (\<lambda>d. if transaction d \<noteq> None then (Inl SqlError, d)
            else (Inr (), d\<lparr>transaction :=
                             Some (walks d, route_points d, walks_seq d, route_points_seq d)\<rparr>))"

definition execCommit :: "engine \<Rightarrow> SQLiteDatabase \<Rightarrow> (error + unit) \<times> SQLiteDatabase" where
  "execCommit fails =
     execute fails COMMIT
       (\<lambda>d. if transaction d = None then (Inl SqlError, d)
            else (Inr (), d\<lparr>transaction := None\<rparr>))"

definition execRollback :: "engine \<Rightarrow> SQLiteDatabase \<Rightarrow> (error + unit) \<times> SQLiteDatabase" where
  "execRollback fails =
     execute fails ROLLBACK
       (\<lambda>d. if transaction d = None then (Inl SqlError, d) else (Inr (), rolledBack d))"

text \<open>\<^verbatim>\<open>CREATE TABLE IF NOT EXISTS\<close> keeps the rows of a table that exists.\<close>

definition execCreateTables :: "engine \<Rightarrow> SQLiteDatabase \<Rightarrow> (error + unit) \<times> SQLiteDatabase" where
  "execCreateTables fails = execute fails CREATE_TABLES (\<lambda>d. (Inr (), d))"

text \<open>An insert appends the row under the next id and returns \<^verbatim>\<open>lastInsertRowId\<close>.\<close>

definition runInsertWalk ::
  "engine \<Rightarrow> Walk \<Rightarrow> SQLiteDatabase \<Rightarrow> (error + int) \<times> SQLiteDatabase" where
  "runInsertWalk fails row =
     execute fails (INSERT_WALK row)
       (\<lambda>d. let i = walks_seq d + 1
            in (Inr i, d\<lparr>walks := walks d @ [row\<lparr>walk_id := Some i\<rparr>], walks_seq := i\<rparr>))"

definition runInsertRoutePoint ::
  "engine \<Rightarrow> RoutePoint \<Rightarrow> SQLiteDatabase \<Rightarrow> (error + int) \<times> SQLiteDatabase" where
  "runInsertRoutePoint fails row =
     execute fails (INSERT_ROUTE_POINT row)
       (\<lambda>d. let i = route_points_seq d + 1
            in (Inr i, d\<lparr>route_points := route_points d @ [row\<lparr>point_id := Some i\<rparr>],
                         route_points_seq := i\<rparr>))"

definition runDeleteRoutePoints ::
  "engine \<Rightarrow> int \<Rightarrow> SQLiteDatabase \<Rightarrow> (error + unit) \<times> SQLiteDatabase" where
  "runDeleteRoutePoints fails i =
     execute fails (DELETE_ROUTE_POINTS i)
       (\<lambda>d. (Inr (), d\<lparr>route_points := filter (\<lambda>p. walkId p \<noteq> i) (route_points d)\<rparr>))"

definition runDeleteWalk ::
  "engine \<Rightarrow> int \<Rightarrow> SQLiteDatabase \<Rightarrow> (error + unit) \<times> SQLiteDatabase" where
  "runDeleteWalk fails i =
     execute fails (DELETE_WALK i)
       (\<lambda>d. (Inr (), d\<lparr>walks := filter (\<lambda>w. walk_id w \<noteq> Some i) (walks d)\<rparr>))"

text \<open>
  The queries. \<^verbatim>\<open>ORDER BY\<close> compares the ISO-8601 texts bytewise. Neither table has
  an index on its sort column, so SQLite sorts the rows it scans in insertion order, and
  its sorter keeps rows with equal keys in the order scanned, for \<^verbatim>\<open>ASC\<close> and for
  \<^verbatim>\<open>DESC\<close>: \<open>sort_key\<close> is stable, and \<open>descending\<close> sorts downwards keeping equal
  keys in their order. A negative \<^verbatim>\<open>LIMIT\<close> is no limit.
\<close>

definition descending :: "('a \<Rightarrow> 'k::linorder) \<Rightarrow> 'a list \<Rightarrow> 'a list" where
  "descending key rows = rev (sort_key key (rev rows))"

definition selectRoutePoints ::
  "engine \<Rightarrow> int \<Rightarrow> SQLiteDatabase \<Rightarrow> (error + RoutePoint list) \<times> SQLiteDatabase" where
  "selectRoutePoints fails i =
     execute fails (SELECT_ROUTE_POINTS i)
       (\<lambda>d. (Inr (sort_key timestamp (filter (\<lambda>p. walkId p = i) (route_points d))), d))"

definition selectWalks :: "engine \<Rightarrow> SQLiteDatabase \<Rightarrow> (error + Walk list) \<times> SQLiteDatabase" where
  "selectWalks fails =
     execute fails SELECT_WALKS (\<lambda>d. (Inr (descending createdAt (walks d)), d))"

definition selectRecentWalks ::
  "engine \<Rightarrow> int \<Rightarrow> SQLiteDatabase \<Rightarrow> (error + Walk list) \<times> SQLiteDatabase" where
  "selectRecentWalks fails limit =
     execute fails (SELECT_RECENT_WALKS limit)
       (\<lambda>d. let rows = descending createdAt (walks d)
            in (Inr (if limit < 0 then rows else take (nat limit) rows), d))"

definition selectWalkById ::
  "engine \<Rightarrow> int \<Rightarrow> SQLiteDatabase \<Rightarrow> (error + Walk option) \<times> SQLiteDatabase" where
  "selectWalkById fails i =
     execute fails (SELECT_WALK_BY_ID i)
       (\<lambda>d. (Inr (find (\<lambda>w. walk_id w = Some i) (walks d)), d))"

text \<open>
  The result object of \<^verbatim>\<open>getWalkStats\<close>. Its fields are declared \<^verbatim>\<open>number\<close>, but
  the row comes from SQL, where an aggregate can be \<^verbatim>\<open>NULL\<close>, so three of them are
  optional here.
\<close>

record WalkStats =
  totalWalks :: int
  totalDuration :: "int option"
  totalDistance :: "number option"
  averageDuration :: "number option"

text \<open>
  \<^verbatim>\<open>SELECT COUNT(*), SUM(duration), SUM(COALESCE(distance, 0)), AVG(duration) FROM walks\<close>.
  An aggregate query without \<^verbatim>\<open>GROUP BY\<close> returns exactly one row, also on an empty
  table; there \<^verbatim>\<open>COUNT(*)\<close> is 0 while \<^verbatim>\<open>SUM\<close> and \<^verbatim>\<open>AVG\<close> have no
  input row and are \<^verbatim>\<open>NULL\<close>. On a table with rows the sum of the distances is taken
  in double precision in row order, the average is the sum of the durations divided by
  the count, in double precision, and a result that is not a number is \<^verbatim>\<open>NULL\<close>.
  \<^verbatim>\<open>getFirstAsync\<close> returns the first row, or \<^verbatim>\<open>null\<close> when there is none.
\<close>

definition COALESCE :: "number option \<Rightarrow> number \<Rightarrow> number" where
  "COALESCE v dflt = (case v of None \<Rightarrow> dflt | Some x \<Rightarrow> x)"

definition nullIfNaN :: "number \<Rightarrow> number option" where
  "nullIfNaN x = (if x = NaN then None else Some x)"

definition selectStats ::
  "engine \<Rightarrow> SQLiteDatabase \<Rightarrow> (error + WalkStats option) \<times> SQLiteDatabase" where
  "selectStats fails =
     execute fails SELECT_STATS
       (\<lambda>d. let rows = walks d
            in (Inr (Some
                 \<lparr>totalWalks = int (length rows),
                  totalDuration =
                    (if rows = [] then None else Some (sum_list (map duration rows))),
                  totalDistance =
                    (if rows = [] then None
                     else nullIfNaN (foldl (fadd round64) (Num 0)
                                       (map (\<lambda>w. COALESCE (distance w) (Num 0)) rows))),
                  averageDuration =
                    (if rows = [] then None
                     else nullIfNaN (fdiv round64
                                       (round64 (real_of_int (sum_list (map duration rows))))
                                       (Num (real (length rows)))))\<rparr>), d))"

section \<open>The database service\<close>

text \<open>
  \<^verbatim>\<open>class DatabaseService { private db: SQLite.SQLiteDatabase | null = null; ... }\<close>.
  The handle is \<open>None\<close> until \<^verbatim>\<open>init\<close> has opened the database. Every method
  catches the errors of its statements and logs them; what the caller sees is the value
  returned. Only \<^verbatim>\<open>saveRoutePoints\<close> can reject, when the \<^verbatim>\<open>ROLLBACK\<close> in its
  \<^verbatim>\<open>catch\<close> block raises. Each method returns the service with the database as its
  statements left it.
\<close>

record DatabaseService =
  db :: "SQLiteDatabase option"

text \<open>
  \<^verbatim>\<open>value || null\<close> on an optional number: \<^verbatim>\<open>undefined\<close>, \<^verbatim>\<open>0\<close> and
  \<^verbatim>\<open>NaN\<close> are falsy and give \<^verbatim>\<open>null\<close>. Coordinates and accuracies are finite.
\<close>

definition orNull :: "real option \<Rightarrow> real option" where
  "orNull v = (case v of None \<Rightarrow> None | Some x \<Rightarrow> if x = 0 then None else Some x)"

definition orNullNumber :: "number option \<Rightarrow> number option" where
  "orNullNumber v =
     (case v of None \<Rightarrow> None | Some x \<Rightarrow> if x = Num 0 \<or> x = NaN then None else Some x)"

definition createTables :: "engine \<Rightarrow> DatabaseService \<Rightarrow> DatabaseService" where
  "createTables fails svc =
     (case db svc of
        None \<Rightarrow> svc
      | Some d \<Rightarrow>
          (case execCreateTables fails d of
             (Inl err, d') \<Rightarrow> svc\<lparr>db := Some d'\<rparr>
           | (Inr created, d') \<Rightarrow> svc\<lparr>db := Some d'\<rparr>))"

text \<open>
  \<^verbatim>\<open>init\<close>: \<open>opened\<close> is the outcome of \<^verbatim>\<open>SQLite.openDatabaseAsync('dogwalks.db')\<close>,
  the database file with the rows it holds, or \<open>None\<close> when opening throws. The handle is
  assigned before \<^verbatim>\<open>createTables\<close> runs, and stays assigned if that fails.
\<close>

definition init :: "engine \<Rightarrow> SQLiteDatabase option \<Rightarrow> DatabaseService \<Rightarrow> DatabaseService" where
  "init fails opened svc =
     (case opened of
        None \<Rightarrow> svc
      | Some d \<Rightarrow> createTables fails (svc\<lparr>db := Some d\<rparr>))"

definition walkParams :: "Walk \<Rightarrow> Walk" where
  "walkParams walk =
     walk\<lparr>endLatitude := orNull (endLatitude walk),
          endLongitude := orNull (endLongitude walk),
          distance := orNullNumber (distance walk)\<rparr>"

definition saveWalk :: "engine \<Rightarrow> Walk \<Rightarrow> DatabaseService \<Rightarrow> int option \<times> DatabaseService" where
  "saveWalk fails walk svc =
     (case db svc of
        None \<Rightarrow> (None, svc)
      | Some d \<Rightarrow>
          (case runInsertWalk fails (walkParams walk) d of
             (Inl err, d') \<Rightarrow> (None, svc\<lparr>db := Some d'\<rparr>)
           | (Inr lastInsertRowId, d') \<Rightarrow> (Some lastInsertRowId, svc\<lparr>db := Some d'\<rparr>)))"

definition routePointParams :: "RoutePoint \<Rightarrow> RoutePoint" where
  "routePointParams point = point\<lparr>accuracy := orNull (accuracy point)\<rparr>"

definition saveRoutePoint ::
  "engine \<Rightarrow> RoutePoint \<Rightarrow> DatabaseService \<Rightarrow> int option \<times> DatabaseService" where
  "saveRoutePoint fails routePoint svc =
     (case db svc of
        None \<Rightarrow> (None, svc)
      | Some d \<Rightarrow>
          (case runInsertRoutePoint fails (routePointParams routePoint) d of
             (Inl err, d') \<Rightarrow> (None, svc\<lparr>db := Some d'\<rparr>)
           | (Inr lastInsertRowId, d') \<Rightarrow> (Some lastInsertRowId, svc\<lparr>db := Some d'\<rparr>)))"

text \<open>
  The \<^verbatim>\<open>for (const point of routePoints)\<close> loop of \<^verbatim>\<open>saveRoutePoints\<close>: the first
  insert that raises ends the loop, with the database as that insert left it.
\<close>

fun insertRoutePoints ::
  "engine \<Rightarrow> RoutePoint list \<Rightarrow> SQLiteDatabase \<Rightarrow> error option \<times> SQLiteDatabase" where
  "insertRoutePoints fails [] d = (None, d)"
| "insertRoutePoints fails (point # rest) d =
     (case runInsertRoutePoint fails (routePointParams point) d of
        (Inl err, d') \<Rightarrow> (Some err, d')
      | (Inr lastInsertRowId, d') \<Rightarrow> insertRoutePoints fails rest d')"

text \<open>The \<^verbatim>\<open>try\<close> block: begin, insert every point, commit.\<close>

definition saveRoutePointsTry ::
  "engine \<Rightarrow> RoutePoint list \<Rightarrow> SQLiteDatabase \<Rightarrow> error option \<times> SQLiteDatabase" where
  "saveRoutePointsTry fails routePoints d =
     (case execBegin fails d of
        (Inl err, d1) \<Rightarrow> (Some err, d1)
      | (Inr begun, d1) \<Rightarrow>
          (case insertRoutePoints fails routePoints d1 of
             (Some err, d2) \<Rightarrow> (Some err, d2)
           | (None, d2) \<Rightarrow>
               (case execCommit fails d2 of
                  (Inl err, d3) \<Rightarrow> (Some err, d3)
                | (Inr committed, d3) \<Rightarrow> (None, d3))))"

text \<open>
  \<^verbatim>\<open>saveRoutePoints\<close>: \<open>Inr b\<close> is the promise resolved with \<open>b\<close>, \<open>Inl err\<close> the
  promise rejected: the \<^verbatim>\<open>catch\<close> block awaits \<^verbatim>\<open>ROLLBACK\<close> outside any
  \<^verbatim>\<open>try\<close>, so an error of that statement leaves the method.
\<close>

definition saveRoutePoints ::
  "engine \<Rightarrow> RoutePoint list \<Rightarrow> DatabaseService \<Rightarrow> (error + bool) \<times> DatabaseService" where
  "saveRoutePoints fails routePoints svc =
     (case db svc of
        None \<Rightarrow> (Inr False, svc)
      | Some d \<Rightarrow>
          if length routePoints = 0 then (Inr False, svc)
          else
            (case saveRoutePointsTry fails routePoints d of
               (None, d') \<Rightarrow> (Inr True, svc\<lparr>db := Some d'\<rparr>)
             | (Some err, d') \<Rightarrow>
                 (case execRollback fails d' of
                    (Inl err', d'') \<Rightarrow> (Inl err', svc\<lparr>db := Some d''\<rparr>)
                  | (Inr undone, d'') \<Rightarrow> (Inr False, svc\<lparr>db := Some d''\<rparr>))))"

definition getRoutePoints ::
  "engine \<Rightarrow> int \<Rightarrow> DatabaseService \<Rightarrow> RoutePoint list \<times> DatabaseService" where
  "getRoutePoints fails i svc =
     (case db svc of
        None \<Rightarrow> ([], svc)
      | Some d \<Rightarrow>
          (case selectRoutePoints fails i d of
             (Inl err, d') \<Rightarrow> ([], svc\<lparr>db := Some d'\<rparr>)
           | (Inr points, d') \<Rightarrow> (points, svc\<lparr>db := Some d'\<rparr>)))"

definition getAllWalks :: "engine \<Rightarrow> DatabaseService \<Rightarrow> Walk list \<times> DatabaseService" where
  "getAllWalks fails svc =
     (case db svc of
        None \<Rightarrow> ([], svc)
      | Some d \<Rightarrow>
          (case selectWalks fails d of
             (Inl err, d') \<Rightarrow> ([], svc\<lparr>db := Some d'\<rparr>)
           | (Inr rows, d') \<Rightarrow> (rows, svc\<lparr>db := Some d'\<rparr>)))"

definition getWalkById ::
  "engine \<Rightarrow> int \<Rightarrow> DatabaseService \<Rightarrow> Walk option \<times> DatabaseService" where
  "getWalkById fails i svc =
     (case db svc of
        None \<Rightarrow> (None, svc)
      | Some d \<Rightarrow>
          (case selectWalkById fails i d of
             (Inl err, d') \<Rightarrow> (None, svc\<lparr>db := Some d'\<rparr>)
           | (Inr walk, d') \<Rightarrow> (walk, svc\<lparr>db := Some d'\<rparr>)))"

text \<open>\<^verbatim>\<open>getRecentWalks(limit: number = 10)\<close>: \<open>None\<close> is the argument left out.\<close>

definition getRecentWalks ::
  "engine \<Rightarrow> int option \<Rightarrow> DatabaseService \<Rightarrow> Walk list \<times> DatabaseService" where
  "getRecentWalks fails limit svc =
     (case db svc of
        None \<Rightarrow> ([], svc)
      | Some d \<Rightarrow>
          (case selectRecentWalks fails (case limit of None \<Rightarrow> 10 | Some n \<Rightarrow> n) d of
             (Inl err, d') \<Rightarrow> ([], svc\<lparr>db := Some d'\<rparr>)
           | (Inr rows, d') \<Rightarrow> (rows, svc\<lparr>db := Some d'\<rparr>)))"

definition zeroStats :: WalkStats where
  "zeroStats =
     \<lparr>totalWalks = 0, totalDuration = Some 0, totalDistance = Some (Num 0),
      averageDuration = Some (Num 0)\<rparr>"

text \<open>\<^verbatim>\<open>return stats || { ...zeros }\<close>: a row object is truthy whatever its fields hold.\<close>

definition getWalkStats :: "engine \<Rightarrow> DatabaseService \<Rightarrow> WalkStats \<times> DatabaseService" where
  "getWalkStats fails svc =
     (case db svc of
        None \<Rightarrow> (zeroStats, svc)
      | Some d \<Rightarrow>
          (case selectStats fails d of
             (Inl err, d') \<Rightarrow> (zeroStats, svc\<lparr>db := Some d'\<rparr>)
           | (Inr stats, d') \<Rightarrow>
               (case stats of None \<Rightarrow> zeroStats | Some row \<Rightarrow> row, svc\<lparr>db := Some d'\<rparr>)))"

definition deleteWalk :: "engine \<Rightarrow> int \<Rightarrow> DatabaseService \<Rightarrow> bool \<times> DatabaseService" where
  "deleteWalk fails i svc =
     (case db svc of
        None \<Rightarrow> (False, svc)
      | Some d \<Rightarrow>
          (case runDeleteRoutePoints fails i d of
             (Inl err, d1) \<Rightarrow> (False, svc\<lparr>db := Some d1\<rparr>)
           | (Inr deleted, d1) \<Rightarrow>
               (case runDeleteWalk fails i d1 of
                  (Inl err, d2) \<Rightarrow> (False, svc\<lparr>db := Some d2\<rparr>)
                | (Inr deleted', d2) \<Rightarrow> (True, svc\<lparr>db := Some d2\<rparr>))))"

section \<open>The walk context\<close>

text \<open>
  The state hooks of \<^verbatim>\<open>WalkProvider\<close>, with their initial values. A \<^verbatim>\<open>Date\<close> is its
  time value in milliseconds; a location subscription is the handle the location
  provider gave for it.
\<close>

record WalkContext =
  isWalking :: bool
  walkStartTime :: "int option"
  startLocation :: "LocationCoords option"
  currentLocation :: "LocationCoords option"
  routePoints :: "LocationCoords list"
  locationSubscription :: "nat option"

definition initialContext :: WalkContext where
  "initialContext =
     \<lparr>isWalking = False, walkStartTime = None, startLocation = None, currentLocation = None,
      routePoints = [], locationSubscription = None\<rparr>"

text \<open>
  What the provider's functions act on: the hooks, the subscriptions that the location
  provider is currently serving, and the database service.
\<close>

record App =
  ctx :: WalkContext
  watching :: "nat set"
  service :: DatabaseService

definition initialApp :: App where
  "initialApp = \<lparr>ctx = initialContext, watching = {}, service = \<lparr>db = None\<rparr>\<rparr>"

text \<open>
  \<^verbatim>\<open>getCurrentLocation\<close>: \<open>position\<close> is the outcome of
  \<^verbatim>\<open>Location.getCurrentPositionAsync\<close>, \<open>None\<close> when it throws; the error is caught
  and \<^verbatim>\<open>null\<close> returned.
\<close>

definition getCurrentLocation :: "LocationCoords option \<Rightarrow> LocationCoords option" where
  "getCurrentLocation position =
     (case position of
        None \<Rightarrow> None
      | Some coords \<Rightarrow> Some \<lparr>latitude = latitude coords, longitude = longitude coords\<rparr>)"

text \<open>
  \<^verbatim>\<open>startLocationTracking\<close>: \<open>watch\<close> is the outcome of
  \<^verbatim>\<open>Location.watchPositionAsync\<close>, the handle of the new subscription, or \<open>None\<close> when
  it throws.
\<close>

definition startLocationTracking :: "nat option \<Rightarrow> App \<Rightarrow> App" where
  "startLocationTracking watch app =
     (case watch of
        None \<Rightarrow> app
      | Some subscription \<Rightarrow>
          app\<lparr>watching := insert subscription (watching app),
              ctx := (ctx app)\<lparr>locationSubscription := Some subscription\<rparr>\<rparr>)"

text \<open>The callback given to \<^verbatim>\<open>watchPositionAsync\<close>, run for each sample.\<close>

definition onLocation :: "LocationCoords \<Rightarrow> App \<Rightarrow> App" where
  "onLocation coords app =
     (let newPoint = \<lparr>latitude = latitude coords, longitude = longitude coords\<rparr>
      in app\<lparr>ctx := (ctx app)
               \<lparr>currentLocation := Some newPoint,
                routePoints := routePoints (ctx app) @ [newPoint]\<rparr>\<rparr>)"

definition stopLocationTracking :: "App \<Rightarrow> App" where
  "stopLocationTracking app =
     (case locationSubscription (ctx app) of
        None \<Rightarrow> app
      | Some subscription \<Rightarrow>
          app\<lparr>watching := watching app - {subscription},
              ctx := (ctx app)\<lparr>locationSubscription := None\<rparr>\<rparr>)"

text \<open>
  \<^verbatim>\<open>startWalk\<close>: \<open>now\<close> is the value of \<^verbatim>\<open>new Date()\<close>. Nothing in its
  \<^verbatim>\<open>try\<close> block throws, since both helpers catch their own errors.
\<close>

definition startWalk :: "LocationCoords option \<Rightarrow> int \<Rightarrow> nat option \<Rightarrow> App \<Rightarrow> App" where
  "startWalk position now watch app =
     (case getCurrentLocation position of
        None \<Rightarrow> app
      | Some location \<Rightarrow>
          startLocationTracking watch
            (app\<lparr>ctx := (ctx app)
                   \<lparr>isWalking := True,
                    walkStartTime := Some now,
                    startLocation := Some location,
                    currentLocation := Some location,
                    routePoints := [location]\<rparr>\<rparr>))"

text \<open>
  \<^verbatim>\<open>Date.prototype.toISOString\<close> throws a \<^verbatim>\<open>RangeError\<close> for a time value outside
  \<open>\<plusminus>8.64e15\<close> ms; \<open>fmt\<close> is the text it gives otherwise.
\<close>

definition toISOString :: "(int \<Rightarrow> string) \<Rightarrow> int \<Rightarrow> error + string" where
  "toISOString fmt t = (if \<bar>t\<bar> > 8640000000000000 then Inl RangeError else Inr (fmt t))"

text \<open>
  \<^verbatim>\<open>routePoints.map((point, index) => ({ walkId, ..., timestamp: new Date(walkStartTime.getTime() + (index * 5000)).toISOString(), accuracy: undefined }))\<close>,
  from \<open>index\<close> on.
\<close>

fun routePointsData ::
  "(int \<Rightarrow> string) \<Rightarrow> int \<Rightarrow> int \<Rightarrow> nat \<Rightarrow> LocationCoords list \<Rightarrow> error + RoutePoint list" where
  "routePointsData fmt walkId' start index [] = Inr []"
| "routePointsData fmt walkId' start index (point # rest) =
     (case toISOString fmt (start + int index * 5000) of
        Inl err \<Rightarrow> Inl err
      | Inr stamp \<Rightarrow>
          (case routePointsData fmt walkId' start (Suc index) rest of
             Inl err \<Rightarrow> Inl err
           | Inr others \<Rightarrow>
               Inr (\<lparr>point_id = None, walkId = walkId', point_latitude = latitude point,
                     point_longitude = longitude point, timestamp = stamp,
                     accuracy = None\<rparr> # others)))"

text \<open>The state reset at the end of \<^verbatim>\<open>stopWalk\<close>, the same four setters on both paths.\<close>

definition resetState :: "App \<Rightarrow> App" where
  "resetState app =
     app\<lparr>ctx := (ctx app)
           \<lparr>isWalking := False, walkStartTime := None, startLocation := None,
            routePoints := []\<rparr>\<rparr>"

text \<open>
  The \<^verbatim>\<open>try\<close> block of \<^verbatim>\<open>stopWalk\<close>, entered with the start time and start location
  that passed the guard. \<open>Some err\<close> is an exception thrown in the block, with the state
  as it was at that moment.
\<close>

definition stopWalkTry ::
  "engine \<Rightarrow> MathLibrary \<Rightarrow> (int \<Rightarrow> string) \<Rightarrow> LocationCoords option \<Rightarrow> int \<Rightarrow> int
     \<Rightarrow> LocationCoords \<Rightarrow> App \<Rightarrow> error option \<times> App" where
  "stopWalkTry fails math fmt position now start startLoc app0 =
     (let app = stopLocationTracking app0;
          endLocation = getCurrentLocation position;
          endTime = now;
          duration' = (endTime - start) div 1000;
          totalDistance' = calculateRouteDistance round64 math (routePoints (ctx app))
      in case toISOString fmt start of
           Inl err \<Rightarrow> (Some err, app)
         | Inr startIso \<Rightarrow>
         (case toISOString fmt endTime of
           Inl err \<Rightarrow> (Some err, app)
         | Inr endIso \<Rightarrow>
           (let walkData =
                  \<lparr>walk_id = None, startTime = startIso, endTime = endIso,
                   duration = duration',
                   startLatitude = latitude startLoc, startLongitude = longitude startLoc,
                   endLatitude = map_option latitude endLocation,
                   endLongitude = map_option longitude endLocation,
                   distance = Some totalDistance',
                   createdAt = endIso\<rparr>;
                (saved, svc1) = saveWalk fails walkData (service app);
                app1 = app\<lparr>service := svc1\<rparr>
            in case (case saved of None \<Rightarrow> None | Some i \<Rightarrow> if i = 0 then None else Some i) of
                 None \<Rightarrow> (None, resetState app1)
               | Some walkId' \<Rightarrow>
                   (case routePointsData fmt walkId' start 0 (routePoints (ctx app1)) of
                      Inl err \<Rightarrow> (Some err, app1)
                    | Inr points \<Rightarrow>
                        (case saveRoutePoints fails points svc1 of
                           (Inl err, svc2) \<Rightarrow> (Some err, app1\<lparr>service := svc2\<rparr>)
                         | (Inr routeSaved, svc2) \<Rightarrow>
                             (None, resetState (app1\<lparr>service := svc2\<rparr>)))))))"

text \<open>
  \<^verbatim>\<open>stopWalk\<close>: the guard \<^verbatim>\<open>if (!walkStartTime || !startLocation) return\<close>, the
  \<^verbatim>\<open>try\<close> block, and the \<^verbatim>\<open>catch\<close> block that stops tracking and resets.
\<close>

definition stopWalk ::
  "engine \<Rightarrow> MathLibrary \<Rightarrow> (int \<Rightarrow> string) \<Rightarrow> LocationCoords option \<Rightarrow> int \<Rightarrow> App \<Rightarrow> App" where
  "stopWalk fails math fmt position now app =
     (case walkStartTime (ctx app) of
        None \<Rightarrow> app
      | Some start \<Rightarrow>
          (case startLocation (ctx app) of
             None \<Rightarrow> app
           | Some startLoc \<Rightarrow>
               (case stopWalkTry fails math fmt position now start startLoc app of
                  (None, app') \<Rightarrow> app'
                | (Some err, app') \<Rightarrow> resetState (stopLocationTracking app'))))"

text \<open>
  The states the application can be in: it starts with the initial hooks, no subscription
  and no database handle; the provider's mount effect runs \<^verbatim>\<open>init\<close>; the screens call
  \<^verbatim>\<open>startWalk\<close>, \<^verbatim>\<open>stopWalk\<close>, \<^verbatim>\<open>deleteWalk\<close> and the queries of the
  service; the location provider delivers a sample while it serves a subscription. The
  environment's part of each step (fixes, clock, handles, failing statements, the
  platform's \<^verbatim>\<open>Math\<close> functions) is arbitrary. Each function runs as one
  step. The provider's clean-up effect only ever removes a subscription; it is left out,
  so samples can arrive here in at least the states in which they can in the application.
\<close>

inductive reachable :: "App \<Rightarrow> bool" where
  initial: "reachable initialApp"
| mount: "reachable app \<Longrightarrow> reachable (app\<lparr>service := init fails opened (service app)\<rparr>)"
| start: "reachable app \<Longrightarrow> reachable (startWalk position now watch app)"
| sample: "reachable app \<Longrightarrow> watching app \<noteq> {} \<Longrightarrow> reachable (onLocation coords app)"
| stop: "reachable app \<Longrightarrow> reachable (stopWalk fails math fmt position now app)"
| delete: "reachable app \<Longrightarrow> reachable (app\<lparr>service := snd (deleteWalk fails i (service app))\<rparr>)"
| points: "reachable app \<Longrightarrow>
     reachable (app\<lparr>service := snd (getRoutePoints fails i (service app))\<rparr>)"
| history: "reachable app \<Longrightarrow> reachable (app\<lparr>service := snd (getAllWalks fails (service app))\<rparr>)"
| recent: "reachable app \<Longrightarrow>
     reachable (app\<lparr>service := snd (getRecentWalks fails limit (service app))\<rparr>)"
| detail: "reachable app \<Longrightarrow> reachable (app\<lparr>service := snd (getWalkById fails i (service app))\<rparr>)"
| stats: "reachable app \<Longrightarrow> reachable (app\<lparr>service := snd (getWalkStats fails (service app))\<rparr>)"

text \<open>
  The invariant of the session state: \<^verbatim>\<open>routePoints\<close> is non-empty whenever the walk is
  active, and \<^verbatim>\<open>walkStartTime\<close> and \<^verbatim>\<open>startLocation\<close> are set together.
\<close>

definition sessionInvariant :: "WalkContext \<Rightarrow> bool" where
  "sessionInvariant c \<longleftrightarrow>
     (isWalking c \<longrightarrow> routePoints c \<noteq> [])
     \<and> (walkStartTime c = None \<longleftrightarrow> startLocation c = None)"

text \<open>The session at rest: not walking, nothing recorded.\<close>

definition idle :: "WalkContext \<Rightarrow> bool" where
  "idle c \<longleftrightarrow>
     \<not> isWalking c \<and> walkStartTime c = None \<and> startLocation c = None \<and> routePoints c = []"

subsection \<open>Concrete stores, engines and sessions\<close>

text \<open>
  Engines: one on which no statement fails, one that cannot begin a transaction, one that
  cannot insert a walk, one that cannot delete a walk, one that rejects a route point
  whose \<^verbatim>\<open>walkId\<close> is not positive, and one whose disk is full when a route point
  is inserted, on which SQLite rolls the transaction back.
\<close>

definition reliable :: engine where
  "reliable stmt = Done"

definition emptyDatabase :: SQLiteDatabase where
  "emptyDatabase =
     \<lparr>walks = [], route_points = [], walks_seq = 0, route_points_seq = 0, transaction = None\<rparr>"

definition uninitialised :: DatabaseService where
  "uninitialised = \<lparr>db = None\<rparr>"

definition emptyStore :: DatabaseService where
  "emptyStore = init reliable (Some emptyDatabase) uninitialised"

definition brokenTransactions :: engine where
  "brokenTransactions stmt = (case stmt of BEGIN_TRANSACTION \<Rightarrow> Raises | _ \<Rightarrow> Done)"

definition brokenWalkInsert :: engine where
  "brokenWalkInsert stmt = (case stmt of INSERT_WALK w \<Rightarrow> Raises | _ \<Rightarrow> Done)"

definition brokenWalkDelete :: engine where
  "brokenWalkDelete stmt = (case stmt of DELETE_WALK i \<Rightarrow> Raises | _ \<Rightarrow> Done)"

definition rejectsUnowned :: engine where
  "rejectsUnowned stmt =
     (case stmt of INSERT_ROUTE_POINT p \<Rightarrow> if walkId p \<le> 0 then Raises else Done | _ \<Rightarrow> Done)"

definition diskFull :: engine where
  "diskFull stmt = (case stmt of INSERT_ROUTE_POINT p \<Rightarrow> RaisesRolledBack | _ \<Rightarrow> Done)"

text \<open>
  The rows that a batch of route points becomes when every insert succeeds: the bound
  parameters of each point, under consecutive ids after \<open>seq\<close>.
\<close>

fun storedRoutePoints :: "int \<Rightarrow> RoutePoint list \<Rightarrow> RoutePoint list" where
  "storedRoutePoints seq [] = []"
| "storedRoutePoints seq (point # rest) =
     (routePointParams point)\<lparr>point_id := Some (seq + 1)\<rparr> # storedRoutePoints (seq + 1) rest"

definition sampleWalk :: "int \<Rightarrow> Walk" where
  "sampleWalk i =
     \<lparr>walk_id = Some i, startTime = ''2024-01-01T10:00:00.000Z'',
      endTime = ''2024-01-01T10:30:00.000Z'', duration = 1800, startLatitude = 40,
      startLongitude = -74, endLatitude = None, endLongitude = None, distance = Some (Num 1200),
      createdAt = ''2024-01-01T10:30:00.000Z''\<rparr>"

definition samplePoint :: "int \<Rightarrow> int \<Rightarrow> RoutePoint" where
  "samplePoint i w =
     \<lparr>point_id = Some i, walkId = w, point_latitude = 40, point_longitude = -74,
      timestamp = ''2024-01-01T10:00:00.000Z'', accuracy = None\<rparr>"

definition sampleDatabase :: SQLiteDatabase where
  "sampleDatabase =
     \<lparr>walks = [sampleWalk 1, sampleWalk 2],
      route_points = [samplePoint 1 1, samplePoint 2 2, samplePoint 3 1],
      walks_seq = 2, route_points_seq = 3, transaction = None\<rparr>"

definition fixedStamp :: "int \<Rightarrow> string" where
  "fixedStamp t = ''2024-01-01T10:00:00.000Z''"

text \<open>
  A session after the provider has mounted, after a walk has started, and after the first
  sample of that walk.
\<close>

definition mountedApp :: App where
  "mountedApp = initialApp\<lparr>service := init reliable (Some emptyDatabase) (service initialApp)\<rparr>"

definition startedApp :: App where
  "startedApp =
     startWalk (Some \<lparr>latitude = 40, longitude = -74\<rparr>) 1704103200000 (Some 1) mountedApp"

definition walkingApp :: App where
  "walkingApp = onLocation \<lparr>latitude = 40.5, longitude = -74\<rparr> startedApp"

subsection \<open>Concrete routes\<close>






section \<open>Properties of the arithmetic\<close>

lemma pow2_pos [simp]: "0 < pow2 k"
  by (simp add: pow2_def)

lemma pow2_nonzero [simp]: "pow2 k \<noteq> 0"
  using pow2_pos [of k] by linarith

lemma pow2_not_le_0 [simp]: "\<not> pow2 k \<le> 0"
  using pow2_pos [of k] by linarith

lemma pow2_abs [simp]: "\<bar>pow2 k\<bar> = pow2 k"
  by (simp add: abs_of_pos)








































lemma pow2_not_less_0 [simp]: "\<not> pow2 k < 0"
  using pow2_pos [of k] by linarith

















lemma pow2_nonneg [simp]: "0 \<le> pow2 k"
  using pow2_pos [of k] by linarith






subsection \<open>The correctly rounded library\<close>










subsection \<open>The Haversine sum over the reals\<close>






subsection \<open>A step too small for double precision\<close>











subsection \<open>Enclosures\<close>



















subsection \<open>Bounds for sine and arc tangent near zero\<close>










subsection \<open>A route whose length depends on the direction\<close>











section \<open>Properties of the distance computation\<close>











section \<open>Properties of the database service\<close>

lemma execute_Done: "fails stmt = Done \<Longrightarrow> execute fails stmt run d = run d"
  by (simp add: execute_def)

lemma execute_not_Done:
  "fails stmt \<noteq> Done \<Longrightarrow> \<exists>d'. execute fails stmt run d = (Inl SqlError, d')"
  by (cases "fails stmt") (simp_all add: execute_def)

lemma rolledBack_closed: "transaction d = None \<Longrightarrow> rolledBack d = d"
  by (simp add: rolledBack_def)

lemma execute_closed:
  "fails stmt \<noteq> Done \<Longrightarrow> transaction d = None \<Longrightarrow> execute fails stmt run d = (Inl SqlError, d)"
  by (cases "fails stmt") (simp_all add: execute_def rolledBack_closed)

lemma insertRoutePoints_accepted:
  "\<forall>p \<in> set points. fails (INSERT_ROUTE_POINT (routePointParams p)) = Done \<Longrightarrow>
     insertRoutePoints fails points d =
       (None, d\<lparr>route_points := route_points d @ storedRoutePoints (route_points_seq d) points,
                route_points_seq := route_points_seq d + int (length points)\<rparr>)"
proof (induction points arbitrary: d)
  case Nil
  then show ?case by simp
next
  case (Cons p ps)
  then show ?case
    by (simp add: runInsertRoutePoint_def execute_Done Let_def add.assoc)
qed

lemma execBegin_opens:
  "transaction d = None \<Longrightarrow> fails BEGIN_TRANSACTION = Done \<Longrightarrow>
     execBegin fails d =
       (Inr (), d\<lparr>transaction := Some (walks d, route_points d, walks_seq d, route_points_seq d)\<rparr>)"
  by (simp add: execBegin_def execute_Done)

lemma saveRoutePoints_succeeds:
  assumes "db svc = Some d" and "transaction d = None" and "fails BEGIN_TRANSACTION = Done"
    and "fails COMMIT = Done" and "points \<noteq> []"
    and "\<forall>p \<in> set points. fails (INSERT_ROUTE_POINT (routePointParams p)) = Done"
  shows "saveRoutePoints fails points svc =
           (Inr True,
            svc\<lparr>db := Some (d\<lparr>route_points :=
                                route_points d @ storedRoutePoints (route_points_seq d) points,
                              route_points_seq := route_points_seq d + int (length points)\<rparr>)\<rparr>)"
proof -
  let ?d1 = "d\<lparr>transaction := Some (walks d, route_points d, walks_seq d, route_points_seq d)\<rparr>"
  have ins: "insertRoutePoints fails points ?d1 =
       (None, ?d1\<lparr>route_points := route_points ?d1 @ storedRoutePoints (route_points_seq ?d1) points,
                route_points_seq := route_points_seq ?d1 + int (length points)\<rparr>)"
    using assms(6) by (rule insertRoutePoints_accepted)
  show ?thesis
    using assms(1,2,4,5) execBegin_opens [of d fails, OF assms(2,3)] ins
    by (cases d) (simp add: saveRoutePoints_def saveRoutePointsTry_def execCommit_def execute_Done)
qed

text \<open>
  The loop of inserts inside a transaction opened on \<open>d\<close>: when the first insert that
  raises has no effect, the transaction is still open on the same snapshot; when SQLite
  rolls back on it, the database is \<open>d\<close> again, with no transaction.
\<close>

lemma insertRoutePoints_raises:
  assumes "transaction d1 = Some (ws, ps, wseq, pseq)"
    and "\<forall>p \<in> set before. fails (INSERT_ROUTE_POINT (routePointParams p)) = Done"
    and "fails (INSERT_ROUTE_POINT (routePointParams point)) = Raises"
  shows "\<exists>d2. insertRoutePoints fails (before @ point # rest) d1 = (Some SqlError, d2)
            \<and> transaction d2 = Some (ws, ps, wseq, pseq)"
  using assms
proof (induction before arbitrary: d1)
  case Nil
  then show ?case
    by (simp add: runInsertRoutePoint_def execute_def)
next
  case (Cons p before)
  let ?d = "d1\<lparr>route_points := route_points d1 @
                 [(routePointParams p)\<lparr>point_id := Some (route_points_seq d1 + 1)\<rparr>],
               route_points_seq := route_points_seq d1 + 1\<rparr>"
  have "transaction ?d = Some (ws, ps, wseq, pseq)"
    using Cons.prems(1) by simp
  from Cons.IH [OF this] Cons.prems(2,3)
  show ?case
    by (simp add: runInsertRoutePoint_def execute_Done Let_def)
qed

lemma insertRoutePoints_rolled_back:
  assumes "transaction d1 = Some (ws, ps, wseq, pseq)"
    and "\<forall>p \<in> set before. fails (INSERT_ROUTE_POINT (routePointParams p)) = Done"
    and "fails (INSERT_ROUTE_POINT (routePointParams point)) = RaisesRolledBack"
  shows "insertRoutePoints fails (before @ point # rest) d1 =
           (Some SqlError,
            d1\<lparr>walks := ws, route_points := ps, walks_seq := wseq, route_points_seq := pseq,
               transaction := None\<rparr>)"
  using assms
proof (induction before arbitrary: d1)
  case Nil
  then show ?case
    by (simp add: runInsertRoutePoint_def execute_def rolledBack_def)
next
  case (Cons p before)
  let ?d = "d1\<lparr>route_points := route_points d1 @
                 [(routePointParams p)\<lparr>point_id := Some (route_points_seq d1 + 1)\<rparr>],
               route_points_seq := route_points_seq d1 + 1\<rparr>"
  have "transaction ?d = Some (ws, ps, wseq, pseq)"
    using Cons.prems(1) by simp
  from Cons.IH [OF this] Cons.prems(2,3)
  show ?case
    by (simp add: runInsertRoutePoint_def execute_Done Let_def)
qed

text \<open>
  A failing insert that has no effect of its own: the \<^verbatim>\<open>ROLLBACK\<close> of the
  \<^verbatim>\<open>catch\<close> block, if it is carried out, restores the database, and the call returns
  \<open>false\<close>.
\<close>

lemma saveRoutePoints_rolls_back:
  assumes "db svc = Some d" and "transaction d = None" and "fails BEGIN_TRANSACTION = Done"
    and "fails ROLLBACK = Done"
    and "\<forall>p \<in> set before. fails (INSERT_ROUTE_POINT (routePointParams p)) = Done"
    and "fails (INSERT_ROUTE_POINT (routePointParams point)) = Raises"
  shows "saveRoutePoints fails (before @ point # rest) svc = (Inr False, svc)"
proof -
  let ?d1 = "d\<lparr>transaction := Some (walks d, route_points d, walks_seq d, route_points_seq d)\<rparr>"
  have "transaction ?d1 = Some (walks d, route_points d, walks_seq d, route_points_seq d)"
    by simp
  from insertRoutePoints_raises [OF this assms(5,6)]
  obtain d2 where ins: "insertRoutePoints fails (before @ point # rest) ?d1 = (Some SqlError, d2)"
    and tr: "transaction d2 = Some (walks d, route_points d, walks_seq d, route_points_seq d)"
    by blast
  have "rolledBack d2 = d"
    using tr assms(2) by (cases d, cases d2) (simp add: rolledBack_def)
  then have "execRollback fails d2 = (Inr (), d)"
    using tr assms(4) by (simp add: execRollback_def execute_Done)
  with ins execBegin_opens [of d fails, OF assms(2,3)] assms(1) show ?thesis
    by (cases svc) (simp add: saveRoutePoints_def saveRoutePointsTry_def)
qed

text \<open>
  A failing insert on which SQLite has rolled back: no row is written, but the
  \<^verbatim>\<open>ROLLBACK\<close> of the \<^verbatim>\<open>catch\<close> block finds no transaction and raises, whatever
  the engine makes of it, and the call rejects.
\<close>

lemma saveRoutePoints_rejects:
  assumes "db svc = Some d" and "transaction d = None" and "fails BEGIN_TRANSACTION = Done"
    and "\<forall>p \<in> set before. fails (INSERT_ROUTE_POINT (routePointParams p)) = Done"
    and "fails (INSERT_ROUTE_POINT (routePointParams point)) = RaisesRolledBack"
  shows "saveRoutePoints fails (before @ point # rest) svc = (Inl SqlError, svc)"
proof -
  let ?d1 = "d\<lparr>transaction := Some (walks d, route_points d, walks_seq d, route_points_seq d)\<rparr>"
  have "transaction ?d1 = Some (walks d, route_points d, walks_seq d, route_points_seq d)"
    by simp
  from insertRoutePoints_rolled_back [OF this assms(4,5)]
  have "insertRoutePoints fails (before @ point # rest) ?d1 =
          (Some SqlError,
           ?d1\<lparr>walks := walks d, route_points := route_points d, walks_seq := walks_seq d,
               route_points_seq := route_points_seq d, transaction := None\<rparr>)" .
  moreover have "?d1\<lparr>walks := walks d, route_points := route_points d, walks_seq := walks_seq d,
               route_points_seq := route_points_seq d, transaction := None\<rparr> = d"
    using assms(2) by (cases d) simp
  ultimately have ins: "insertRoutePoints fails (before @ point # rest) ?d1 = (Some SqlError, d)"
    by simp
  have "execRollback fails d = (Inl SqlError, d)"
    using assms(2) by (cases "fails ROLLBACK") (simp_all add: execRollback_def execute_def rolledBack_def)
  with ins execBegin_opens [of d fails, OF assms(2,3)] assms(1) show ?thesis
    by (cases svc) (simp add: saveRoutePoints_def saveRoutePointsTry_def)
qed

text \<open>
  \<open>descending\<close> is a stable sort downwards: the keys come out in descending order, and
  the rows of each key stay in the order they had, so rows with equal keys come out in
  insertion order.
\<close>

lemma descending_sorted: "sorted (rev (map key (descending key rows)))"
  by (simp add: descending_def rev_map)

lemma descending_stable:
  "filter (\<lambda>row. key row = k) (descending key rows) = filter (\<lambda>row. key row = k) rows"
proof -
  have "filter (\<lambda>row. key row = k) (descending key rows)
      = rev (filter (\<lambda>row. key row = k) (sort_key key (rev rows)))"
    by (simp add: descending_def rev_filter)
  also have "\<dots> = rev (filter (\<lambda>row. key row = k) (rev rows))"
    by (simp only: sort_key_stable)
  also have "\<dots> = filter (\<lambda>row. key row = k) rows"
    by (simp add: rev_filter)
  finally show ?thesis .
qed

lemma descending_set: "set (descending key rows) = set rows"
  by (simp add: descending_def)

lemma descending_ties:
  assumes "\<forall>row \<in> set rows. key row = k"
  shows "descending key rows = rows"
proof -
  have "filter (\<lambda>row. key row = k) (descending key rows) = descending key rows"
    using assms by (simp add: descending_set)
  moreover have "filter (\<lambda>row. key row = k) rows = rows"
    using assms by simp
  ultimately show ?thesis
    using descending_stable [of key k rows] by simp
qed

lemma sampleDatabase_newest_first:
  "fst (getAllWalks reliable \<lparr>db = Some sampleDatabase\<rparr>) = [sampleWalk 1, sampleWalk 2]
   \<and> fst (getRecentWalks reliable (Some 1) \<lparr>db = Some sampleDatabase\<rparr>) = [sampleWalk 1]"
proof -
  have "descending createdAt [sampleWalk 1, sampleWalk 2] = [sampleWalk 1, sampleWalk 2]"
    by (rule descending_ties [of _ _ "''2024-01-01T10:30:00.000Z''"]) (simp add: sampleWalk_def)
  then show ?thesis
    by (simp add: getAllWalks_def getRecentWalks_def selectWalks_def selectRecentWalks_def
        execute_def reliable_def sampleDatabase_def)
qed

lemma emptyStore_db: "db emptyStore = Some emptyDatabase"
  by (simp add: emptyStore_def init_def createTables_def uninitialised_def execCreateTables_def
      execute_def reliable_def)

text \<open>
  Claim C3. \<^verbatim>\<open>saveRoutePoints\<close> should report failure by returning \<open>false\<close> whenever
  the insert of an element fails. It does when the failing insert has no effect of its
  own, as with a rejected row: the \<^verbatim>\<open>ROLLBACK\<close> of the \<^verbatim>\<open>catch\<close> block undoes the
  batch. It does not when SQLite has already rolled the transaction back on the failing
  insert, as it does when the disk is full: no row is written, but the \<^verbatim>\<open>ROLLBACK\<close>
  finds no transaction and raises, and the call rejects instead of returning \<open>false\<close>.
\<close>

theorem saveRoutePoints_rejects_after_automatic_rollback:
  "saveRoutePoints rejectsUnowned
     [\<lparr>point_id = None, walkId = 1, point_latitude = 40, point_longitude = -74,
       timestamp = ''2024-01-01T10:00:00.000Z'', accuracy = None\<rparr>,
      \<lparr>point_id = None, walkId = 0, point_latitude = 40, point_longitude = -74,
       timestamp = ''2024-01-01T10:00:05.000Z'', accuracy = None\<rparr>]
     emptyStore = (Inr False, emptyStore)
   \<and> saveRoutePoints diskFull
     [\<lparr>point_id = None, walkId = 1, point_latitude = 40, point_longitude = -74,
       timestamp = ''2024-01-01T10:00:00.000Z'', accuracy = None\<rparr>,
      \<lparr>point_id = None, walkId = 1, point_latitude = 40, point_longitude = -74,
       timestamp = ''2024-01-01T10:00:05.000Z'', accuracy = None\<rparr>]
     emptyStore = (Inl SqlError, emptyStore)"
  by (simp add: saveRoutePoints_def saveRoutePointsTry_def emptyStore_db execBegin_def
      execCommit_def execRollback_def runInsertRoutePoint_def execute_def rolledBack_def
      routePointParams_def orNull_def rejectsUnowned_def diskFull_def emptyDatabase_def
      emptyStore_def init_def createTables_def execCreateTables_def uninitialised_def
      reliable_def)

text \<open>
  Claim C4. \<^verbatim>\<open>getWalkStats()\<close> on a store with no walk rows should return all zeros.
  It does not: on the initialised store with an empty \<^verbatim>\<open>walks\<close> table the aggregate
  query yields a row whose count is 0 and whose sums and average are \<^verbatim>\<open>NULL\<close>, and
  the method returns that row, which differs from the all-zero record of its other paths.
\<close>

theorem getWalkStats_empty_store:
  "fst (getWalkStats reliable emptyStore) =
     \<lparr>totalWalks = 0, totalDuration = None, totalDistance = None, averageDuration = None\<rparr>
   \<and> fst (getWalkStats reliable emptyStore) \<noteq> zeroStats"
  by (simp add: getWalkStats_def emptyStore_db selectStats_def execute_def reliable_def
      emptyDatabase_def zeroStats_def)

text \<open>
  Claim C5, as stated, asks that an operation invoked before \<^verbatim>\<open>init\<close> has completed
  fail in a way the caller can tell from a successful result. The queries cannot be told
  apart: on the service without a handle they return what they return on an initialised
  store that holds no data.
\<close>

theorem not_initialised_indistinguishable:
  "db uninitialised = None \<and> db emptyStore \<noteq> None
   \<and> fst (getRoutePoints reliable 1 uninitialised) = fst (getRoutePoints reliable 1 emptyStore)
   \<and> fst (getAllWalks reliable uninitialised) = fst (getAllWalks reliable emptyStore)
   \<and> fst (getRecentWalks reliable None uninitialised)
       = fst (getRecentWalks reliable None emptyStore)
   \<and> fst (getWalkById reliable 1 uninitialised) = fst (getWalkById reliable 1 emptyStore)"
  by (simp add: emptyStore_db uninitialised_def getRoutePoints_def getAllWalks_def
      getRecentWalks_def getWalkById_def selectRoutePoints_def descending_def
      selectWalks_def selectRecentWalks_def selectWalkById_def execute_def reliable_def
      emptyDatabase_def)

lemma selectStats_not_zero:
  "fails SELECT_STATS = Done \<Longrightarrow> db svc = Some d \<Longrightarrow> fst (getWalkStats fails svc) \<noteq> zeroStats"
  by (cases "walks d = []")
     (auto simp: getWalkStats_def selectStats_def execute_Done zeroStats_def Let_def)

text \<open>
  Claim C5, amended. The service signals no condition of its own for a missing handle.
  While the handle is unset (before \<^verbatim>\<open>init\<close> has opened the database, and for good
  if opening fails) every operation leaves the service as it is and returns its fallback
  value: \<open>null\<close> for \<^verbatim>\<open>saveWalk\<close> and \<^verbatim>\<open>getWalkById\<close>, \<open>false\<close> for
  \<^verbatim>\<open>saveRoutePoints\<close> and \<^verbatim>\<open>deleteWalk\<close>, the empty sequence for
  \<^verbatim>\<open>getRoutePoints\<close>, \<^verbatim>\<open>getAllWalks\<close> and \<^verbatim>\<open>getRecentWalks\<close>, and the
  all-zero record for \<^verbatim>\<open>getWalkStats\<close>. On a service with a handle:
  \<^verbatim>\<open>saveWalk\<close>, \<^verbatim>\<open>saveRoutePoints\<close>, \<^verbatim>\<open>deleteWalk\<close> and
  \<^verbatim>\<open>getWalkStats\<close> whose statements are carried out never return their fallback (they
  return a row id, \<open>true\<close>, \<open>true\<close> and the aggregate row), so the caller can tell the
  fallback from success, but they return it when their statement raises (and
  \<^verbatim>\<open>saveRoutePoints\<close> also for an empty batch and after a rolled-back insert); the
  four queries return their fallback also when they are carried out and find no data.
  Once \<^verbatim>\<open>init\<close> has opened the database the handle is set, whether or not creating
  the tables succeeds, and the operations execute their statements; so does an operation
  that is invoked when \<^verbatim>\<open>init\<close> has assigned the handle and \<^verbatim>\<open>createTables\<close> has
  not run yet: \<^verbatim>\<open>getAllWalks\<close> then returns the rows of the database as it was
  opened.
\<close>

theorem not_initialised_fallback:
  "(db svc = None \<longrightarrow>
       saveWalk fails walk svc = (None, svc)
     \<and> saveRoutePoints fails points svc = (Inr False, svc)
     \<and> getRoutePoints fails i svc = ([], svc)
     \<and> getAllWalks fails svc = ([], svc)
     \<and> getRecentWalks fails limit svc = ([], svc)
     \<and> getWalkById fails i svc = (None, svc)
     \<and> getWalkStats fails svc = (zeroStats, svc)
     \<and> deleteWalk fails i svc = (False, svc))
   \<and> init fails None svc = svc
   \<and> db (init fails (Some opened) svc) \<noteq> None
   \<and> (fails SELECT_WALKS = Done \<longrightarrow>
         fst (getAllWalks fails (svc\<lparr>db := Some opened\<rparr>)) = descending createdAt (walks opened))
   \<and> (db svc = Some d \<longrightarrow>
         (fails (INSERT_WALK (walkParams walk)) = Done \<longrightarrow> fst (saveWalk fails walk svc) \<noteq> None)
       \<and> (fails (INSERT_WALK (walkParams walk)) \<noteq> Done \<longrightarrow> fst (saveWalk fails walk svc) = None)
       \<and> (transaction d = None \<and> fails BEGIN_TRANSACTION = Done \<and> fails COMMIT = Done
            \<and> points \<noteq> []
            \<and> (\<forall>p \<in> set points. fails (INSERT_ROUTE_POINT (routePointParams p)) = Done)
          \<longrightarrow> fst (saveRoutePoints fails points svc) = Inr True)
       \<and> (transaction d = None \<and> fails BEGIN_TRANSACTION = Done \<and> fails ROLLBACK = Done
            \<and> points \<noteq> []
            \<and> fails (INSERT_ROUTE_POINT (routePointParams (hd points))) = Raises
          \<longrightarrow> fst (saveRoutePoints fails points svc) = Inr False)
       \<and> fst (saveRoutePoints fails [] svc) = Inr False
       \<and> (fails (DELETE_ROUTE_POINTS i) = Done \<and> fails (DELETE_WALK i) = Done
          \<longrightarrow> fst (deleteWalk fails i svc) = True)
       \<and> (fails (DELETE_ROUTE_POINTS i) \<noteq> Done \<or> fails (DELETE_WALK i) \<noteq> Done
          \<longrightarrow> fst (deleteWalk fails i svc) = False)
       \<and> (fails SELECT_STATS = Done \<longrightarrow> fst (getWalkStats fails svc) \<noteq> zeroStats)
       \<and> (fails SELECT_STATS \<noteq> Done \<longrightarrow> fst (getWalkStats fails svc) = zeroStats)
       \<and> (fails (SELECT_ROUTE_POINTS i) = Done
            \<and> (\<forall>p \<in> set (route_points d). walkId p \<noteq> i)
          \<longrightarrow> fst (getRoutePoints fails i svc) = [])
       \<and> (fails SELECT_WALKS = Done \<and> walks d = [] \<longrightarrow> fst (getAllWalks fails svc) = [])
       \<and> (fails (SELECT_RECENT_WALKS (case limit of None \<Rightarrow> 10 | Some n \<Rightarrow> n)) = Done
            \<and> walks d = []
          \<longrightarrow> fst (getRecentWalks fails limit svc) = [])
       \<and> (fails (SELECT_WALK_BY_ID i) = Done \<and> (\<forall>w \<in> set (walks d). walk_id w \<noteq> Some i)
          \<longrightarrow> fst (getWalkById fails i svc) = None))"
proof (intro conjI impI)
  assume "db svc = None"
  then show "saveWalk fails walk svc = (None, svc)"
    "saveRoutePoints fails points svc = (Inr False, svc)"
    "getRoutePoints fails i svc = ([], svc)"
    "getAllWalks fails svc = ([], svc)"
    "getRecentWalks fails limit svc = ([], svc)"
    "getWalkById fails i svc = (None, svc)"
    "getWalkStats fails svc = (zeroStats, svc)"
    "deleteWalk fails i svc = (False, svc)"
    by (simp_all add: saveWalk_def saveRoutePoints_def getRoutePoints_def getAllWalks_def
        getRecentWalks_def getWalkById_def getWalkStats_def deleteWalk_def)
next
  show "init fails None svc = svc"
    by (simp add: init_def)
next
  show "db (init fails (Some opened) svc) \<noteq> None"
    by (simp add: init_def createTables_def split: prod.splits sum.splits)
next
  assume "fails SELECT_WALKS = Done"
  then show "fst (getAllWalks fails (svc\<lparr>db := Some opened\<rparr>))
      = descending createdAt (walks opened)"
    by (simp add: getAllWalks_def selectWalks_def execute_Done)
next
  assume "db svc = Some d" and "fails (INSERT_WALK (walkParams walk)) = Done"
  then show "fst (saveWalk fails walk svc) \<noteq> None"
    by (simp add: saveWalk_def runInsertWalk_def execute_Done Let_def)
next
  assume "db svc = Some d" and "fails (INSERT_WALK (walkParams walk)) \<noteq> Done"
  moreover from this have "\<exists>d'. runInsertWalk fails (walkParams walk) d = (Inl SqlError, d')"
    unfolding runInsertWalk_def by (intro execute_not_Done)
  ultimately show "fst (saveWalk fails walk svc) = None"
    by (auto simp: saveWalk_def)
next
  assume a: "db svc = Some d"
    and b: "transaction d = None \<and> fails BEGIN_TRANSACTION = Done \<and> fails COMMIT = Done
            \<and> points \<noteq> []
            \<and> (\<forall>p \<in> set points. fails (INSERT_ROUTE_POINT (routePointParams p)) = Done)"
  then show "fst (saveRoutePoints fails points svc) = Inr True"
    using saveRoutePoints_succeeds [of svc d fails points] by simp
next
  assume a: "db svc = Some d"
    and b: "transaction d = None \<and> fails BEGIN_TRANSACTION = Done \<and> fails ROLLBACK = Done
            \<and> points \<noteq> []
            \<and> fails (INSERT_ROUTE_POINT (routePointParams (hd points))) = Raises"
  then obtain p rest where "points = [] @ p # rest"
    by (cases points) auto
  with a b show "fst (saveRoutePoints fails points svc) = Inr False"
    using saveRoutePoints_rolls_back [of svc d fails "[]" p rest] by simp
next
  assume "db svc = Some d"
  then show "fst (saveRoutePoints fails [] svc) = Inr False"
    by (simp add: saveRoutePoints_def)
next
  assume "db svc = Some d"
    and "fails (DELETE_ROUTE_POINTS i) = Done \<and> fails (DELETE_WALK i) = Done"
  then show "fst (deleteWalk fails i svc) = True"
    by (simp add: deleteWalk_def runDeleteRoutePoints_def runDeleteWalk_def execute_Done)
next
  assume a: "db svc = Some d"
    and b: "fails (DELETE_ROUTE_POINTS i) \<noteq> Done \<or> fails (DELETE_WALK i) \<noteq> Done"
  show "fst (deleteWalk fails i svc) = False"
  proof (cases "fails (DELETE_ROUTE_POINTS i) = Done")
    case True
    with b have "fails (DELETE_WALK i) \<noteq> Done" by simp
    then have "\<exists>d'. runDeleteWalk fails i
                  (d\<lparr>route_points := filter (\<lambda>p. walkId p \<noteq> i) (route_points d)\<rparr>)
                = (Inl SqlError, d')"
      unfolding runDeleteWalk_def by (intro execute_not_Done)
    with True a show ?thesis
      by (auto simp: deleteWalk_def runDeleteRoutePoints_def execute_Done)
  next
    case False
    then have "\<exists>d'. runDeleteRoutePoints fails i d = (Inl SqlError, d')"
      unfolding runDeleteRoutePoints_def by (intro execute_not_Done)
    with a show ?thesis
      by (auto simp: deleteWalk_def)
  qed
next
  assume "db svc = Some d" and "fails SELECT_STATS = Done"
  then show "fst (getWalkStats fails svc) \<noteq> zeroStats"
    by (simp add: selectStats_not_zero)
next
  assume a: "db svc = Some d" and "fails SELECT_STATS \<noteq> Done"
  then have "\<exists>d'. selectStats fails d = (Inl SqlError, d')"
    unfolding selectStats_def by (intro execute_not_Done)
  with a show "fst (getWalkStats fails svc) = zeroStats"
    by (auto simp: getWalkStats_def)
next
  assume "db svc = Some d"
    and "fails (SELECT_ROUTE_POINTS i) = Done \<and> (\<forall>p \<in> set (route_points d). walkId p \<noteq> i)"
  moreover from this have "filter (\<lambda>p. walkId p = i) (route_points d) = []"
    by (simp add: filter_empty_conv)
  ultimately show "fst (getRoutePoints fails i svc) = []"
    by (simp add: getRoutePoints_def selectRoutePoints_def execute_Done)
next
  assume "db svc = Some d" and "fails SELECT_WALKS = Done \<and> walks d = []"
  then show "fst (getAllWalks fails svc) = []"
    by (simp add: getAllWalks_def selectWalks_def execute_Done descending_def)
next
  assume "db svc = Some d"
    and "fails (SELECT_RECENT_WALKS (case limit of None \<Rightarrow> 10 | Some n \<Rightarrow> n)) = Done
            \<and> walks d = []"
  then show "fst (getRecentWalks fails limit svc) = []"
    by (simp add: getRecentWalks_def selectRecentWalks_def execute_Done descending_def)
next
  assume "db svc = Some d"
    and "fails (SELECT_WALK_BY_ID i) = Done \<and> (\<forall>w \<in> set (walks d). walk_id w \<noteq> Some i)"
  moreover from this have "find (\<lambda>w. walk_id w = Some i) (walks d) = None"
    by (simp add: find_None_iff)
  ultimately show "fst (getWalkById fails i svc) = None"
    by (simp add: getWalkById_def selectWalkById_def execute_Done)
qed

theorem not_initialised_fallback_witness:
  "db uninitialised = None
   \<and> saveWalk reliable (sampleWalk 0) uninitialised = (None, uninitialised)
   \<and> saveRoutePoints reliable [samplePoint 0 1] uninitialised = (Inr False, uninitialised)
   \<and> getWalkStats reliable uninitialised = (zeroStats, uninitialised)
   \<and> deleteWalk reliable 1 uninitialised = (False, uninitialised)
   \<and> getAllWalks reliable uninitialised = ([], uninitialised)
   \<and> db emptyStore = Some emptyDatabase
   \<and> fst (saveWalk reliable (sampleWalk 0) emptyStore) \<noteq> None
   \<and> fst (saveWalk brokenWalkInsert (sampleWalk 0) emptyStore) = None
   \<and> fst (saveRoutePoints reliable [samplePoint 0 1] emptyStore) = Inr True
   \<and> fst (deleteWalk reliable 1 emptyStore) = True
   \<and> fst (deleteWalk brokenWalkDelete 1 emptyStore) = False
   \<and> fst (getWalkStats reliable emptyStore) \<noteq> zeroStats
   \<and> fst (getAllWalks reliable emptyStore) = []
   \<and> fst (getWalkById reliable 1 emptyStore) = None
   \<and> fst (getAllWalks reliable (uninitialised\<lparr>db := Some emptyDatabase\<rparr>)) = []"
  using not_initialised_fallback [of uninitialised reliable "sampleWalk 0" "[samplePoint 0 1]" 1
      None emptyDatabase emptyDatabase]
    not_initialised_fallback [of emptyStore reliable "sampleWalk 0" "[samplePoint 0 1]" 1
      None emptyDatabase emptyDatabase]
    not_initialised_fallback [of emptyStore brokenWalkInsert "sampleWalk 0" "[samplePoint 0 1]" 1
      None emptyDatabase emptyDatabase]
    not_initialised_fallback [of emptyStore brokenWalkDelete "sampleWalk 0" "[samplePoint 0 1]" 1
      None emptyDatabase emptyDatabase]
  by (simp add: emptyStore_db uninitialised_def reliable_def brokenWalkInsert_def
      brokenWalkDelete_def emptyDatabase_def descending_def)

text \<open>
  Claim C9. On an open database where the delete of the route points is carried out:
  \<^verbatim>\<open>deleteWalk(id)\<close> removes the walk row with that id and every route point whose
  \<^verbatim>\<open>walkId\<close> is that id, keeps all other rows of both tables in place, and reports
  success; the route points go first, so if the delete of the walk row fails they are
  already gone and the call reports failure (unless the failure makes SQLite roll back a
  transaction that was open, which restores them); for an id with no walk row the call
  reports success and leaves the walks as they are; and if moreover every route point
  belongs to a walk, as the schema's foreign key says, the call changes nothing.
\<close>

theorem deleteWalk_cascade:
  assumes "db svc = Some d" and "fails (DELETE_ROUTE_POINTS i) = Done"
  shows "(fails (DELETE_WALK i) = Done \<longrightarrow>
            deleteWalk fails i svc =
              (True, svc\<lparr>db := Some (d\<lparr>route_points := filter (\<lambda>p. walkId p \<noteq> i) (route_points d),
                                      walks := filter (\<lambda>w. walk_id w \<noteq> Some i) (walks d)\<rparr>)\<rparr>))
       \<and> (fails (DELETE_WALK i) = Raises \<longrightarrow>
            deleteWalk fails i svc =
              (False, svc\<lparr>db := Some (d\<lparr>route_points :=
                                         filter (\<lambda>p. walkId p \<noteq> i) (route_points d)\<rparr>)\<rparr>))
       \<and> (fails (DELETE_WALK i) \<noteq> Done \<and> transaction d = None \<longrightarrow>
            deleteWalk fails i svc =
              (False, svc\<lparr>db := Some (d\<lparr>route_points :=
                                         filter (\<lambda>p. walkId p \<noteq> i) (route_points d)\<rparr>)\<rparr>))
       \<and> (fails (DELETE_WALK i) = RaisesRolledBack \<longrightarrow>
            deleteWalk fails i svc =
              (False, svc\<lparr>db := Some (rolledBack (d\<lparr>route_points :=
                                         filter (\<lambda>p. walkId p \<noteq> i) (route_points d)\<rparr>))\<rparr>))
       \<and> (fails (DELETE_WALK i) = Done \<and> (\<forall>w \<in> set (walks d). walk_id w \<noteq> Some i) \<longrightarrow>
            deleteWalk fails i svc =
              (True, svc\<lparr>db := Some (d\<lparr>route_points :=
                                        filter (\<lambda>p. walkId p \<noteq> i) (route_points d)\<rparr>)\<rparr>))
       \<and> (fails (DELETE_WALK i) = Done
            \<and> (\<forall>w \<in> set (walks d). walk_id w \<noteq> Some i)
            \<and> (\<forall>p \<in> set (route_points d). \<exists>w \<in> set (walks d). walk_id w = Some (walkId p))
          \<longrightarrow> deleteWalk fails i svc = (True, svc))"
proof (intro conjI impI)
  assume "fails (DELETE_WALK i) = Done"
  with assms show "deleteWalk fails i svc =
              (True, svc\<lparr>db := Some (d\<lparr>route_points := filter (\<lambda>p. walkId p \<noteq> i) (route_points d),
                                      walks := filter (\<lambda>w. walk_id w \<noteq> Some i) (walks d)\<rparr>)\<rparr>)"
    by (simp add: deleteWalk_def runDeleteRoutePoints_def runDeleteWalk_def execute_Done)
next
  assume "fails (DELETE_WALK i) = Raises"
  with assms show "deleteWalk fails i svc =
              (False, svc\<lparr>db := Some (d\<lparr>route_points :=
                                         filter (\<lambda>p. walkId p \<noteq> i) (route_points d)\<rparr>)\<rparr>)"
    by (simp add: deleteWalk_def runDeleteRoutePoints_def runDeleteWalk_def execute_def)
next
  assume "fails (DELETE_WALK i) \<noteq> Done \<and> transaction d = None"
  with assms show "deleteWalk fails i svc =
              (False, svc\<lparr>db := Some (d\<lparr>route_points :=
                                         filter (\<lambda>p. walkId p \<noteq> i) (route_points d)\<rparr>)\<rparr>)"
    by (simp add: deleteWalk_def runDeleteRoutePoints_def runDeleteWalk_def execute_Done
        execute_closed)
next
  assume "fails (DELETE_WALK i) = RaisesRolledBack"
  with assms show "deleteWalk fails i svc =
              (False, svc\<lparr>db := Some (rolledBack (d\<lparr>route_points :=
                                         filter (\<lambda>p. walkId p \<noteq> i) (route_points d)\<rparr>))\<rparr>)"
    by (simp add: deleteWalk_def runDeleteRoutePoints_def runDeleteWalk_def execute_def)
next
  assume a: "fails (DELETE_WALK i) = Done \<and> (\<forall>w \<in> set (walks d). walk_id w \<noteq> Some i)"
  then have w: "filter (\<lambda>w. walk_id w \<noteq> Some i) (walks d) = walks d"
    by (simp add: filter_id_conv)
  from a assms w show "deleteWalk fails i svc =
              (True, svc\<lparr>db := Some (d\<lparr>route_points :=
                                        filter (\<lambda>p. walkId p \<noteq> i) (route_points d)\<rparr>)\<rparr>)"
    by (simp add: deleteWalk_def runDeleteRoutePoints_def runDeleteWalk_def execute_Done)
next
  assume a: "fails (DELETE_WALK i) = Done
            \<and> (\<forall>w \<in> set (walks d). walk_id w \<noteq> Some i)
            \<and> (\<forall>p \<in> set (route_points d). \<exists>w \<in> set (walks d). walk_id w = Some (walkId p))"
  then have w: "filter (\<lambda>w. walk_id w \<noteq> Some i) (walks d) = walks d"
    by (simp add: filter_id_conv)
  from a have "\<forall>p \<in> set (route_points d). walkId p \<noteq> i"
    by fastforce
  then have p: "filter (\<lambda>p. walkId p \<noteq> i) (route_points d) = route_points d"
    by (simp add: filter_id_conv)
  from a assms w p have "deleteWalk fails i svc = (True, svc\<lparr>db := Some d\<rparr>)"
    by (simp add: deleteWalk_def runDeleteRoutePoints_def runDeleteWalk_def execute_Done)
  with assms(1) show "deleteWalk fails i svc = (True, svc)"
    by (cases svc) simp
qed

theorem deleteWalk_cascade_witness:
  "deleteWalk reliable 1 \<lparr>db = Some sampleDatabase\<rparr> =
     (True, \<lparr>db = Some (sampleDatabase\<lparr>route_points := [samplePoint 2 2],
                                       walks := [sampleWalk 2]\<rparr>)\<rparr>)
   \<and> deleteWalk brokenWalkDelete 1 \<lparr>db = Some sampleDatabase\<rparr> =
     (False, \<lparr>db = Some (sampleDatabase\<lparr>route_points := [samplePoint 2 2]\<rparr>)\<rparr>)
   \<and> list_all (\<lambda>w. walk_id w \<noteq> Some 3) (walks sampleDatabase)
   \<and> list_all (\<lambda>p. list_ex (\<lambda>w. walk_id w = Some (walkId p)) (walks sampleDatabase))
        (route_points sampleDatabase)
   \<and> deleteWalk reliable 3 \<lparr>db = Some sampleDatabase\<rparr> = (True, \<lparr>db = Some sampleDatabase\<rparr>)"
  using deleteWalk_cascade [of "\<lparr>db = Some sampleDatabase\<rparr>" sampleDatabase reliable 1]
    deleteWalk_cascade [of "\<lparr>db = Some sampleDatabase\<rparr>" sampleDatabase brokenWalkDelete 1]
    deleteWalk_cascade [of "\<lparr>db = Some sampleDatabase\<rparr>" sampleDatabase reliable 3]
  by (simp add: reliable_def brokenWalkDelete_def sampleDatabase_def sampleWalk_def
      samplePoint_def)

lemma storedRoutePoints_length: "length (storedRoutePoints seq points) = length points"
  by (induction points arbitrary: seq) simp_all

lemma storedRoutePoints_accuracy:
  "k < length points \<Longrightarrow>
     accuracy (storedRoutePoints seq points ! k) = orNull (accuracy (points ! k))"
proof (induction points arbitrary: seq k)
  case Nil
  then show ?case by simp
next
  case (Cons p ps)
  then show ?case
    by (cases k) (simp_all add: routePointParams_def)
qed

text \<open>
  Claim C10. The save operations store \<^verbatim>\<open>NULL\<close> for an optional field whose value is
  exactly 0: the row that \<^verbatim>\<open>saveWalk\<close> writes has \<^verbatim>\<open>NULL\<close> for a distance, end
  latitude or end longitude of 0 (and for a distance that is \<^verbatim>\<open>NaN\<close>, also falsy), and
  the rows that \<^verbatim>\<open>saveRoutePoint\<close> and \<^verbatim>\<open>saveRoutePoints\<close> write have
  \<^verbatim>\<open>NULL\<close> for an accuracy of 0.
\<close>

theorem falsy_zero_stored_as_null:
  assumes "db svc = Some d"
  shows "(fails (INSERT_WALK (walkParams walk)) = Done \<longrightarrow>
            (\<exists>row. saveWalk fails walk svc =
                     (Some (walks_seq d + 1),
                      svc\<lparr>db := Some (d\<lparr>walks := walks d @ [row], walks_seq := walks_seq d + 1\<rparr>)\<rparr>)
                  \<and> (distance walk = Some (Num 0) \<longrightarrow> distance row = None)
                  \<and> (distance walk = Some NaN \<longrightarrow> distance row = None)
                  \<and> (endLatitude walk = Some 0 \<longrightarrow> endLatitude row = None)
                  \<and> (endLongitude walk = Some 0 \<longrightarrow> endLongitude row = None)))
       \<and> (fails (INSERT_ROUTE_POINT (routePointParams point)) = Done \<longrightarrow>
            (\<exists>row. saveRoutePoint fails point svc =
                     (Some (route_points_seq d + 1),
                      svc\<lparr>db := Some (d\<lparr>route_points := route_points d @ [row],
                                        route_points_seq := route_points_seq d + 1\<rparr>)\<rparr>)
                  \<and> (accuracy point = Some 0 \<longrightarrow> accuracy row = None)))
       \<and> (transaction d = None \<and> fails BEGIN_TRANSACTION = Done \<and> fails COMMIT = Done
            \<and> points \<noteq> []
            \<and> (\<forall>p \<in> set points. fails (INSERT_ROUTE_POINT (routePointParams p)) = Done) \<longrightarrow>
            (\<exists>rows. saveRoutePoints fails points svc =
                      (Inr True,
                       svc\<lparr>db := Some (d\<lparr>route_points := route_points d @ rows,
                                         route_points_seq :=
                                           route_points_seq d + int (length points)\<rparr>)\<rparr>)
                   \<and> length rows = length points
                   \<and> (\<forall>k < length points.
                         accuracy (points ! k) = Some 0 \<longrightarrow> accuracy (rows ! k) = None)))"
proof (intro conjI impI)
  assume "fails (INSERT_WALK (walkParams walk)) = Done"
  with assms show "\<exists>row. saveWalk fails walk svc =
                     (Some (walks_seq d + 1),
                      svc\<lparr>db := Some (d\<lparr>walks := walks d @ [row], walks_seq := walks_seq d + 1\<rparr>)\<rparr>)
                  \<and> (distance walk = Some (Num 0) \<longrightarrow> distance row = None)
                  \<and> (distance walk = Some NaN \<longrightarrow> distance row = None)
                  \<and> (endLatitude walk = Some 0 \<longrightarrow> endLatitude row = None)
                  \<and> (endLongitude walk = Some 0 \<longrightarrow> endLongitude row = None)"
    by (intro exI [of _ "(walkParams walk)\<lparr>walk_id := Some (walks_seq d + 1)\<rparr>"])
       (simp add: saveWalk_def runInsertWalk_def execute_Done Let_def walkParams_def orNull_def
          orNullNumber_def)
next
  assume "fails (INSERT_ROUTE_POINT (routePointParams point)) = Done"
  with assms show "\<exists>row. saveRoutePoint fails point svc =
                     (Some (route_points_seq d + 1),
                      svc\<lparr>db := Some (d\<lparr>route_points := route_points d @ [row],
                                        route_points_seq := route_points_seq d + 1\<rparr>)\<rparr>)
                  \<and> (accuracy point = Some 0 \<longrightarrow> accuracy row = None)"
    by (intro exI [of _ "(routePointParams point)\<lparr>point_id := Some (route_points_seq d + 1)\<rparr>"])
       (simp add: saveRoutePoint_def runInsertRoutePoint_def execute_Done Let_def
          routePointParams_def orNull_def)
next
  assume a: "transaction d = None \<and> fails BEGIN_TRANSACTION = Done \<and> fails COMMIT = Done
            \<and> points \<noteq> []
            \<and> (\<forall>p \<in> set points. fails (INSERT_ROUTE_POINT (routePointParams p)) = Done)"
  have saved: "saveRoutePoints fails points svc =
                (Inr True,
                 svc\<lparr>db := Some (d\<lparr>route_points :=
                                     route_points d @ storedRoutePoints (route_points_seq d) points,
                                   route_points_seq := route_points_seq d + int (length points)\<rparr>)\<rparr>)"
    using a assms saveRoutePoints_succeeds [of svc d fails points] by simp
  show "\<exists>rows. saveRoutePoints fails points svc =
                      (Inr True,
                       svc\<lparr>db := Some (d\<lparr>route_points := route_points d @ rows,
                                         route_points_seq :=
                                           route_points_seq d + int (length points)\<rparr>)\<rparr>)
                   \<and> length rows = length points
                   \<and> (\<forall>k < length points.
                         accuracy (points ! k) = Some 0 \<longrightarrow> accuracy (rows ! k) = None)"
    using saved
    by (intro exI [of _ "storedRoutePoints (route_points_seq d) points"])
       (simp add: storedRoutePoints_length storedRoutePoints_accuracy orNull_def)
qed

theorem falsy_zero_stored_as_null_witness:
  "db emptyStore = Some emptyDatabase \<and> reliable BEGIN_TRANSACTION = Done
   \<and> saveWalk reliable
        \<lparr>walk_id = None, startTime = ''2024-01-01T10:00:00.000Z'',
         endTime = ''2024-01-01T10:30:00.000Z'', duration = 1800, startLatitude = 0,
         startLongitude = 0, endLatitude = Some 0, endLongitude = Some 0,
         distance = Some (Num 0), createdAt = ''2024-01-01T10:30:00.000Z''\<rparr> emptyStore =
       (Some 1,
        emptyStore\<lparr>db := Some (emptyDatabase
          \<lparr>walks :=
             [\<lparr>walk_id = Some 1, startTime = ''2024-01-01T10:00:00.000Z'',
               endTime = ''2024-01-01T10:30:00.000Z'', duration = 1800, startLatitude = 0,
               startLongitude = 0, endLatitude = None, endLongitude = None, distance = None,
               createdAt = ''2024-01-01T10:30:00.000Z''\<rparr>],
           walks_seq := 1\<rparr>)\<rparr>)
   \<and> saveRoutePoints reliable
        [\<lparr>point_id = None, walkId = 1, point_latitude = 0, point_longitude = 0,
          timestamp = ''2024-01-01T10:00:00.000Z'', accuracy = Some 0\<rparr>] emptyStore =
       (Inr True,
        emptyStore\<lparr>db := Some (emptyDatabase
          \<lparr>route_points :=
             [\<lparr>point_id = Some 1, walkId = 1, point_latitude = 0, point_longitude = 0,
               timestamp = ''2024-01-01T10:00:00.000Z'', accuracy = None\<rparr>],
           route_points_seq := 1\<rparr>)\<rparr>)"
  using falsy_zero_stored_as_null [of emptyStore emptyDatabase reliable
        "\<lparr>walk_id = None, startTime = ''2024-01-01T10:00:00.000Z'',
         endTime = ''2024-01-01T10:30:00.000Z'', duration = 1800, startLatitude = 0,
         startLongitude = 0, endLatitude = Some 0, endLongitude = Some 0,
         distance = Some (Num 0), createdAt = ''2024-01-01T10:30:00.000Z''\<rparr>"
        "\<lparr>point_id = None, walkId = 1, point_latitude = 0, point_longitude = 0,
          timestamp = ''2024-01-01T10:00:00.000Z'', accuracy = Some 0\<rparr>"
        "[\<lparr>point_id = None, walkId = 1, point_latitude = 0, point_longitude = 0,
          timestamp = ''2024-01-01T10:00:00.000Z'', accuracy = Some 0\<rparr>]"]
  by (simp add: emptyStore_db emptyDatabase_def reliable_def saveWalk_def runInsertWalk_def
      walkParams_def orNull_def orNullNumber_def saveRoutePoints_def saveRoutePointsTry_def
      execBegin_def execCommit_def runInsertRoutePoint_def routePointParams_def execute_def)

section \<open>Properties of the walk context\<close>

lemma idle_resetState: "idle (ctx (resetState app))"
  by (simp add: idle_def resetState_def)

lemma stopWalkTry_idle:
  "stopWalkTry fails math fmt position now start startLoc app = (None, app') \<Longrightarrow> idle (ctx app')"
  by (auto simp: stopWalkTry_def Let_def idle_resetState
      split: sum.splits option.splits prod.splits if_splits)

lemma stopWalk_idle:
  assumes "walkStartTime (ctx app) \<noteq> None" and "startLocation (ctx app) \<noteq> None"
  shows "idle (ctx (stopWalk fails math fmt position now app))"
proof -
  from assms obtain start startLoc
    where s: "walkStartTime (ctx app) = Some start" "startLocation (ctx app) = Some startLoc"
    by auto
  obtain r app' where t: "stopWalkTry fails math fmt position now start startLoc app = (r, app')"
    by (cases "stopWalkTry fails math fmt position now start startLoc app")
  show ?thesis
  proof (cases r)
    case None
    with s t stopWalkTry_idle [of fails math fmt position now start startLoc app app'] show ?thesis
      by (simp add: stopWalk_def)
  next
    case (Some err)
    with s t show ?thesis
      by (simp add: stopWalk_def idle_resetState)
  qed
qed

lemma stopWalk_guard:
  "walkStartTime (ctx app) = None \<or> startLocation (ctx app) = None \<Longrightarrow>
     stopWalk fails math fmt position now app = app"
  by (auto simp: stopWalk_def split: option.splits)

lemma sessionInvariant_startWalk:
  "sessionInvariant (ctx app) \<Longrightarrow> sessionInvariant (ctx (startWalk position now watch app))"
  by (simp add: startWalk_def startLocationTracking_def sessionInvariant_def
      split: option.splits)

lemma sessionInvariant_onLocation:
  "sessionInvariant (ctx app) \<Longrightarrow> sessionInvariant (ctx (onLocation coords app))"
  by (simp add: onLocation_def sessionInvariant_def Let_def)

lemma sessionInvariant_stopWalk:
  assumes "sessionInvariant (ctx app)"
  shows "sessionInvariant (ctx (stopWalk fails math fmt position now app))"
proof (cases "walkStartTime (ctx app) = None \<or> startLocation (ctx app) = None")
  case True
  with assms show ?thesis
    by (simp add: stopWalk_guard)
next
  case False
  then have "idle (ctx (stopWalk fails math fmt position now app))"
    by (simp add: stopWalk_idle)
  then show ?thesis
    by (simp add: idle_def sessionInvariant_def)
qed

lemma active_startWalk:
  "isWalking (ctx app) \<longrightarrow> walkStartTime (ctx app) \<noteq> None \<Longrightarrow>
   isWalking (ctx (startWalk position now watch app))
     \<longrightarrow> walkStartTime (ctx (startWalk position now watch app)) \<noteq> None"
  by (simp add: startWalk_def startLocationTracking_def split: option.splits)

lemma active_stopWalk:
  assumes "isWalking (ctx app) \<longrightarrow> walkStartTime (ctx app) \<noteq> None"
  shows "isWalking (ctx (stopWalk fails math fmt position now app))
     \<longrightarrow> walkStartTime (ctx (stopWalk fails math fmt position now app)) \<noteq> None"
proof (cases "walkStartTime (ctx app) = None \<or> startLocation (ctx app) = None")
  case True
  with assms show ?thesis
    by (simp add: stopWalk_guard)
next
  case False
  then have "idle (ctx (stopWalk fails math fmt position now app))"
    by (simp add: stopWalk_idle)
  then show ?thesis
    by (simp add: idle_def)
qed

lemma reachable_session:
  "reachable app \<Longrightarrow>
     sessionInvariant (ctx app) \<and> (isWalking (ctx app) \<longrightarrow> walkStartTime (ctx app) \<noteq> None)"
proof (induction rule: reachable.induct)
  case initial
  then show ?case
    by (simp add: initialApp_def initialContext_def sessionInvariant_def)
next
  case (mount app fails opened)
  then show ?case by simp
next
  case (start app position now watch)
  then show ?case
    using sessionInvariant_startWalk active_startWalk by blast
next
  case (sample app coords)
  then show ?case
    using sessionInvariant_onLocation [of app coords]
    by (simp add: onLocation_def Let_def)
next
  case (stop app fails math fmt position now)
  then show ?case
    using sessionInvariant_stopWalk active_stopWalk by blast
next
  case (delete app fails i)
  then show ?case by simp
next
  case (points app fails i)
  then show ?case by simp
next
  case (history app fails)
  then show ?case by simp
next
  case (recent app fails limit)
  then show ?case by simp
next
  case (detail app fails i)
  then show ?case by simp
next
  case (stats app fails)
  then show ?case by simp
qed

lemma reachable_startedApp: "reachable startedApp"
  unfolding startedApp_def mountedApp_def
  by (rule reachable.start [OF reachable.mount [OF reachable.initial]])

lemma startedApp_eq:
  "startedApp =
     \<lparr>ctx = \<lparr>isWalking = True, walkStartTime = Some 1704103200000,
             startLocation = Some \<lparr>latitude = 40, longitude = -74\<rparr>,
             currentLocation = Some \<lparr>latitude = 40, longitude = -74\<rparr>,
             routePoints = [\<lparr>latitude = 40, longitude = -74\<rparr>],
             locationSubscription = Some 1\<rparr>,
      watching = {1}, service = emptyStore\<rparr>"
  by (simp add: startedApp_def startWalk_def startLocationTracking_def
      getCurrentLocation_def mountedApp_def initialApp_def initialContext_def emptyStore_def
      uninitialised_def)

lemma reachable_walkingApp: "reachable walkingApp"
proof -
  have "watching startedApp \<noteq> {}"
    by (simp add: startedApp_eq)
  with reachable_startedApp show ?thesis
    unfolding walkingApp_def by (rule reachable.sample)
qed

lemma walkingApp_ctx:
  "ctx walkingApp =
     \<lparr>isWalking = True, walkStartTime = Some 1704103200000,
      startLocation = Some \<lparr>latitude = 40, longitude = -74\<rparr>,
      currentLocation = Some \<lparr>latitude = 40.5, longitude = -74\<rparr>,
      routePoints = [\<lparr>latitude = 40, longitude = -74\<rparr>, \<lparr>latitude = 40.5, longitude = -74\<rparr>],
      locationSubscription = Some 1\<rparr>"
  by (simp add: walkingApp_def onLocation_def startedApp_eq Let_def)

text \<open>
  Claim C7. Every reachable session state satisfies the invariant (\<^verbatim>\<open>routePoints\<close> is
  non-empty whenever the walk is active, and the start time and the start location are
  both set or both unset), and each operation preserves it on all of its paths: starting
  a walk, with or without a fix; a location update; stopping a walk, whether the guard
  rejects it, the walk is persisted, or persistence fails or throws.
\<close>

theorem session_invariant_holds:
  "(reachable app \<longrightarrow> sessionInvariant (ctx app))
   \<and> (sessionInvariant (ctx app) \<longrightarrow>
        sessionInvariant (ctx (startWalk position now watch app))
        \<and> sessionInvariant (ctx (onLocation coords app))
        \<and> sessionInvariant (ctx (stopWalk fails math fmt position' now' app)))"
  using reachable_session sessionInvariant_startWalk sessionInvariant_onLocation
    sessionInvariant_stopWalk by blast

theorem session_invariant_holds_witness:
  "reachable walkingApp \<and> sessionInvariant (ctx walkingApp)
   \<and> isWalking (ctx walkingApp) \<and> routePoints (ctx walkingApp) \<noteq> []
   \<and> sessionInvariant
        (ctx (stopWalk reliable libm fixedStamp None 1704105000000 walkingApp))"
  using session_invariant_holds [of walkingApp None 0 None "\<lparr>latitude = 0, longitude = 0\<rparr>"
      reliable libm fixedStamp None 1704105000000] reachable_walkingApp
  by (simp add: walkingApp_ctx)

text \<open>
  Claim C2. For every active session and every persistence outcome (\<^verbatim>\<open>saveWalk\<close>
  succeeds or fails, \<^verbatim>\<open>saveRoutePoints\<close> succeeds, fails or throws), after
  \<^verbatim>\<open>stopWalk\<close> the session is idle: \<^verbatim>\<open>isWalking\<close> is false,
  \<^verbatim>\<open>walkStartTime\<close> and \<^verbatim>\<open>startLocation\<close> are \<open>null\<close>, and
  \<^verbatim>\<open>routePoints\<close> is empty.
\<close>

theorem stopWalk_resets_to_idle:
  assumes "reachable app" and "isWalking (ctx app)"
  shows "\<not> isWalking (ctx (stopWalk fails math fmt position now app))
       \<and> walkStartTime (ctx (stopWalk fails math fmt position now app)) = None
       \<and> startLocation (ctx (stopWalk fails math fmt position now app)) = None
       \<and> routePoints (ctx (stopWalk fails math fmt position now app)) = []"
proof -
  from reachable_session [OF assms(1)] assms(2)
  have "walkStartTime (ctx app) \<noteq> None" "startLocation (ctx app) \<noteq> None"
    by (auto simp: sessionInvariant_def)
  then have "idle (ctx (stopWalk fails math fmt position now app))"
    by (rule stopWalk_idle)
  then show ?thesis
    by (simp add: idle_def)
qed

theorem stopWalk_resets_to_idle_witness:
  "reachable startedApp \<and> isWalking (ctx startedApp)
   \<and> fst (stopWalkTry reliable libm fixedStamp None 1704105000000 1704103200000
             \<lparr>latitude = 40, longitude = -74\<rparr> startedApp) = None
   \<and> fst (stopWalkTry brokenTransactions libm fixedStamp None 1704105000000 1704103200000
             \<lparr>latitude = 40, longitude = -74\<rparr> startedApp) = Some SqlError
   \<and> fst (saveWalk brokenWalkInsert (sampleWalk 0) emptyStore) = None
   \<and> idle (ctx (stopWalk reliable libm fixedStamp None 1704105000000 startedApp))
   \<and> idle (ctx (stopWalk brokenTransactions libm fixedStamp None 1704105000000 startedApp))
   \<and> idle (ctx (stopWalk brokenWalkInsert libm fixedStamp None 1704105000000 startedApp))
   \<and> fst (stopWalkTry diskFull libm fixedStamp None 1704105000000 1704103200000
             \<lparr>latitude = 40, longitude = -74\<rparr> startedApp) = Some SqlError
   \<and> idle (ctx (stopWalk diskFull libm fixedStamp None 1704105000000 startedApp))"
proof -
  have f: "fst (stopWalkTry diskFull libm fixedStamp None 1704105000000 1704103200000
             \<lparr>latitude = 40, longitude = -74\<rparr> startedApp) = Some SqlError"
    by (simp add: startedApp_eq stopWalkTry_def stopLocationTracking_def Let_def toISOString_def
      getCurrentLocation_def calculateRouteDistance_def saveWalk_def emptyStore_db
      runInsertWalk_def walkParams_def orNull_def diskFull_def fixedStamp_def
      saveRoutePoints_def saveRoutePointsTry_def execBegin_def execCommit_def execRollback_def
      runInsertRoutePoint_def routePointParams_def emptyDatabase_def resetState_def execute_def
      rolledBack_def orNullNumber_def)
  have r: "fst (stopWalkTry reliable libm fixedStamp None 1704105000000 1704103200000
             \<lparr>latitude = 40, longitude = -74\<rparr> startedApp) = None"
    by (simp add: startedApp_eq stopWalkTry_def stopLocationTracking_def Let_def toISOString_def
      getCurrentLocation_def calculateRouteDistance_def saveWalk_def emptyStore_db
      runInsertWalk_def walkParams_def orNull_def reliable_def fixedStamp_def
      saveRoutePoints_def saveRoutePointsTry_def execBegin_def execCommit_def
      runInsertRoutePoint_def routePointParams_def emptyDatabase_def resetState_def execute_def
      rolledBack_def orNullNumber_def)
  have b: "fst (stopWalkTry brokenTransactions libm fixedStamp None 1704105000000 1704103200000
             \<lparr>latitude = 40, longitude = -74\<rparr> startedApp) = Some SqlError"
    by (simp add: startedApp_eq stopWalkTry_def stopLocationTracking_def Let_def toISOString_def
      getCurrentLocation_def calculateRouteDistance_def saveWalk_def emptyStore_db
      runInsertWalk_def walkParams_def orNull_def brokenTransactions_def fixedStamp_def
      saveRoutePoints_def saveRoutePointsTry_def execBegin_def execCommit_def execRollback_def
      runInsertRoutePoint_def routePointParams_def emptyDatabase_def resetState_def execute_def
      rolledBack_def orNullNumber_def)
  have w: "fst (saveWalk brokenWalkInsert (sampleWalk 0) emptyStore) = None"
    by (simp add: saveWalk_def emptyStore_db runInsertWalk_def brokenWalkInsert_def execute_def)
  have a: "isWalking (ctx startedApp)"
    by (simp add: startedApp_eq)
  show ?thesis
    using r b w f a reachable_startedApp
      stopWalk_resets_to_idle [OF reachable_startedApp a, of reliable libm fixedStamp None 1704105000000]
      stopWalk_resets_to_idle [OF reachable_startedApp a, of brokenTransactions libm fixedStamp None 1704105000000]
      stopWalk_resets_to_idle [OF reachable_startedApp a, of brokenWalkInsert libm fixedStamp None 1704105000000]
      stopWalk_resets_to_idle [OF reachable_startedApp a, of diskFull libm fixedStamp None 1704105000000]
    by (simp add: idle_def)
qed

text \<open>
  Claim C6. If the current-location fix of \<^verbatim>\<open>startWalk\<close> fails then no transition
  occurs, whatever the state: the whole state stays as it is. In particular an idle
  session stays idle, empty \<^verbatim>\<open>routePoints\<close> stay empty, \<^verbatim>\<open>walkStartTime\<close>,
  \<^verbatim>\<open>startLocation\<close> and \<^verbatim>\<open>currentLocation\<close> are unchanged, and no location
  subscription is started.
\<close>

theorem startWalk_without_fix:
  assumes "getCurrentLocation position = None"
  shows "startWalk position now watch app = app
       \<and> (\<not> isWalking (ctx app) \<longrightarrow> \<not> isWalking (ctx (startWalk position now watch app)))
       \<and> (routePoints (ctx app) = [] \<longrightarrow> routePoints (ctx (startWalk position now watch app)) = [])
       \<and> walkStartTime (ctx (startWalk position now watch app)) = walkStartTime (ctx app)
       \<and> startLocation (ctx (startWalk position now watch app)) = startLocation (ctx app)
       \<and> currentLocation (ctx (startWalk position now watch app)) = currentLocation (ctx app)
       \<and> locationSubscription (ctx (startWalk position now watch app))
           = locationSubscription (ctx app)
       \<and> watching (startWalk position now watch app) = watching app"
  using assms by (simp add: startWalk_def)

theorem startWalk_without_fix_witness:
  "getCurrentLocation None = None
   \<and> \<not> isWalking (ctx mountedApp) \<and> routePoints (ctx mountedApp) = []
   \<and> startWalk None 1704103200000 (Some 1) mountedApp = mountedApp
   \<and> \<not> isWalking (ctx (startWalk None 1704103200000 (Some 1) mountedApp))
   \<and> routePoints (ctx (startWalk None 1704103200000 (Some 1) mountedApp)) = []
   \<and> watching (startWalk None 1704103200000 (Some 1) mountedApp) = {}"
  using startWalk_without_fix [of None 1704103200000 "Some 1" mountedApp]
  by (simp add: mountedApp_def initialApp_def initialContext_def getCurrentLocation_def)

end
